theory Spec2Isabelle
  imports Main
begin

section \<open>The news pipeline of Pipeline.ipynb\<close>

text \<open>
  The notebook's first code cell fetches articles from a remote API (\<open>fetch\<close>), reshapes
  them into a ten-column table (\<open>process\<close>), appends them to a SQLite table inside a
  transaction with a CSV file as fallback (\<open>store\<close>), and optionally repeats this forever
  (\<open>run_periodically\<close>). Everything the code does to the outside is explicit here: the
  outside's answers are the fields of a \<open>world\<close>, and what the program did is recorded
  in a \<open>state\<close> that every function takes and returns. A raised exception is the
  \<open>Inl\<close> of a sum, returned together with the state reached when it was raised.
\<close>

subsection \<open>Module constants\<close>

definition DB_FILE :: string where
  "DB_FILE = ''news.db''"

definition BASE_URL :: string where
  "BASE_URL = ''http://api.mediastack.com/v1''"

definition columns :: "string list" where
  "columns = [''author'', ''title'', ''description'', ''url'', ''source'', ''image'',
              ''category'', ''language'', ''country'', ''published_at'']"

subsection \<open>Values and exceptions\<close>

text \<open>
  A parsed JSON value. A Python dict is the list of its items, read with \<open>map_of\<close>.
  \<open>JNull\<close> is Python's \<open>None\<close>; it also stands for the missing-value marker that
  pandas puts into a cell whose key is absent (both are written as SQL NULL and as an
  empty CSV field).
\<close>

datatype json =
    JNull
  | JBool bool
  | JNum int
  | JStr string
  | JList "json list"
  | JDict "(string \<times> json) list"

text \<open>
  The subclasses of Python's \<open>Exception\<close> that occur, each with the text \<open>str\<close>
  gives for it. \<open>DatabaseError\<close> stands for whatever \<open>sqlite3\<close> or
  \<open>DataFrame.to_sql\<close> raise, \<open>OSError\<close> for what writing a file raises.
\<close>

datatype py_exception =
    RequestException string
  | JSONDecodeError string
  | KeyError string
  | TypeError string
  | DatabaseError string
  | OSError string

text \<open>The argument a \<open>SystemExit\<close> is constructed with: a string, an exception or a JSON value.\<close>

datatype exit_arg =
    ArgStr string
  | ArgExc py_exception
  | ArgJson json

text \<open>
  What a function can raise. \<open>SystemExit\<close> derives from \<open>BaseException\<close> only, so
  \<open>except Exception\<close> matches exactly the values \<open>Exception e\<close> and
  \<open>except SystemExit\<close> exactly the values \<open>SystemExit a\<close>.
\<close>

datatype raised =
    SystemExit exit_arg
  | Exception py_exception

fun str_exc :: "py_exception \<Rightarrow> string" where
  "str_exc (RequestException m) = m"
| "str_exc (JSONDecodeError m) = m"
| "str_exc (KeyError k) = [CHR 0x27] @ k @ [CHR 0x27]"
| "str_exc (TypeError m) = m"
| "str_exc (DatabaseError m) = m"
| "str_exc (OSError m) = m"

subsection \<open>Tables\<close>

text \<open>A pandas DataFrame without index: the column names and the rows, one cell per column.\<close>

record dataframe =
  df_columns :: "string list"
  df_rows :: "json list list"

text \<open>A table of the database: the declared columns with their types, and the committed rows.\<close>

record table =
  schema :: "(string \<times> string) list"
  t_rows :: "json list list"

subsection \<open>The outside world\<close>

record datetime =
  dt_year :: nat
  dt_month :: nat
  dt_day :: nat
  dt_hour :: nat
  dt_minute :: nat
  dt_second :: nat

text \<open>
  The body of a response after \<open>response.json()\<close>: a JSON object, of which the program
  reads the keys \<open>error\<close> and \<open>data\<close> only; \<open>None\<close> is an absent key. Under
  \<open>data\<close> the API sends a list of article dicts.
\<close>

record body =
  b_error :: "json option"
  b_data :: "(string \<times> json) list list option"

text \<open>
  A response of \<open>requests.get\<close>. \<open>resp_json\<close> is what \<open>response.json()\<close>
  returns; \<open>None\<close> when the body is not JSON and the call raises.
\<close>

record response =
  status_code :: nat
  reason :: string
  resp_json :: "body option"

text \<open>
  The answers of the outside during one run:
  \<^item> \<open>api_key\<close>: \<open>os.getenv("API_KEY")\<close> after \<open>load_dotenv()\<close>;
  \<^item> \<open>http_get\<close>: \<open>requests.get\<close>, \<open>Inl m\<close> for a \<open>RequestException\<close> with text \<open>m\<close>;
  \<^item> \<open>decode_error_is_request_exception\<close>: whether the installed \<open>requests\<close> derives
    the error of \<open>response.json()\<close> from \<open>RequestException\<close> (it does from 2.27 on);
  \<^item> \<open>decode_error\<close>: the text of that error;
  \<^item> \<open>str_json\<close>: Python's \<open>str\<close> on a JSON value;
  \<^item> \<open>clock\<close>: the n-th reading of \<open>datetime.now()\<close>;
  \<^item> the faults: \<open>Some m\<close> when the call raises an exception with text \<open>m\<close>;
    \<open>to_sql_fault = Some (k, m)\<close> when \<open>to_sql\<close> raises after inserting \<open>k\<close> rows;
    \<open>commit_fault\<close> is for the \<open>conn.commit()\<close> of \<open>store\<close> itself.
\<close>

record world =
  api_key :: "string option"
  http_get :: "string \<Rightarrow> string + response"
  decode_error_is_request_exception :: bool
  decode_error :: string
  str_json :: "json \<Rightarrow> string"
  clock :: "nat \<Rightarrow> datetime"
  connect_fault :: "string option"
  create_fault :: "string option"
  begin_fault :: "string option"
  to_sql_fault :: "(nat \<times> string) option"
  commit_fault :: "string option"
  rollback_fault :: "string option"
  to_csv_fault :: "string option"

text \<open>
  What the program has done so far:
  \<^item> \<open>requests\<close>: the URLs passed to \<open>requests.get\<close>, in order;
  \<^item> \<open>stdout\<close>: the printed lines;
  \<^item> \<open>ticks\<close>: how often \<open>datetime.now()\<close> was read;
  \<^item> \<open>news\<close>: the committed \<open>news\<close> table of \<open>DB_FILE\<close>, \<open>None\<close> while it does not exist;
  \<^item> \<open>open_conns\<close>: the connections opened and not closed;
  \<^item> \<open>txn\<close>: the rows inserted by the open transaction, \<open>None\<close> when there is none;
  \<^item> \<open>files\<close>: the CSV files written, by name: header and rows;
  \<^item> \<open>sleeps\<close>: the arguments of the calls of \<open>sleep\<close>.
\<close>

record state =
  requests :: "string list"
  stdout :: "string list"
  ticks :: nat
  news :: "table option"
  open_conns :: nat
  txn :: "json list list option"
  files :: "string \<rightharpoonup> dataframe"
  sleeps :: "nat list"

subsection \<open>Formatting\<close>

definition digit :: "nat \<Rightarrow> char" where
  "digit n = ''0123456789'' ! n"

function str_nat :: "nat \<Rightarrow> string" where
  "str_nat n = (if n < 10 then [digit n] else str_nat (n div 10) @ [digit (n mod 10)])"
  by pat_completeness auto
termination
  by (relation "measure id") auto

declare str_nat.simps [simp del]

definition zfill :: "nat \<Rightarrow> string \<Rightarrow> string" where
  "zfill w str = replicate (w - length str) (CHR ''0'') @ str"

text \<open>\<open>strftime("%Y-%m-%d %H:%M:%S")\<close>\<close>

definition strftime_stamp :: "datetime \<Rightarrow> string" where
  "strftime_stamp d =
     zfill 4 (str_nat (dt_year d)) @ ''-'' @ zfill 2 (str_nat (dt_month d)) @ ''-'' @
     zfill 2 (str_nat (dt_day d)) @ '' '' @ zfill 2 (str_nat (dt_hour d)) @ '':'' @
     zfill 2 (str_nat (dt_minute d)) @ '':'' @ zfill 2 (str_nat (dt_second d))"

text \<open>\<open>strftime('%Y_%m_%d')\<close>\<close>

definition strftime_date :: "datetime \<Rightarrow> string" where
  "strftime_date d =
     zfill 4 (str_nat (dt_year d)) @ ''_'' @ zfill 2 (str_nat (dt_month d)) @ ''_'' @
     zfill 2 (str_nat (dt_day d))"

definition now :: "world \<Rightarrow> state \<Rightarrow> datetime" where
  "now w s = clock w (ticks s)"

definition tick :: "state \<Rightarrow> state" where
  "tick s = s\<lparr>ticks := Suc (ticks s)\<rparr>"

definition curr_time :: "world \<Rightarrow> state \<Rightarrow> string" where
  "curr_time w s = strftime_stamp (now w s)"

definition print :: "string \<Rightarrow> state \<Rightarrow> state" where
  "print line s = s\<lparr>stdout := stdout s @ [line]\<rparr>"

text \<open>The idiom \<open>print(f"[{curr_time()}] msg")\<close>: one reading of the clock, one line.\<close>

definition stamped :: "world \<Rightarrow> state \<Rightarrow> string \<Rightarrow> string" where
  "stamped w s msg = ''['' @ curr_time w s @ ''] '' @ msg"

definition print_stamped :: "world \<Rightarrow> string \<Rightarrow> state \<Rightarrow> state" where
  "print_stamped w msg s = print (stamped w s msg) (tick s)"

fun str_arg :: "world \<Rightarrow> exit_arg \<Rightarrow> string" where
  "str_arg w (ArgStr m) = m"
| "str_arg w (ArgExc e) = str_exc e"
| "str_arg w (ArgJson j) = str_json w j"

subsection \<open>fetch\<close>

text \<open>Python's \<open>v[key]\<close> for a string key: only a dict that has the key answers.\<close>

fun subscript :: "json \<Rightarrow> string \<Rightarrow> py_exception + json" where
  "subscript (JDict items) k =
     (case map_of items k of None \<Rightarrow> Inl (KeyError k) | Some v \<Rightarrow> Inr v)"
| "subscript v k = Inl (TypeError ''not subscriptable by a string'')"

definition num_articles :: nat where
  "num_articles = 100"

definition request_url :: "string \<Rightarrow> string" where
  "request_url key =
     BASE_URL @ ''/news?access_key='' @ key @
     ''&languages=en&keywords=ai&sort=published_desc&limit='' @ str_nat num_articles"

text \<open>
  The checks after the \<open>try\<close> block of \<open>fetch\<close>: the status, then the \<open>error\<close> key.
  In the f-string of the third print the clock is read before \<open>result['error']['message']\<close>
  is evaluated, so a failing subscript leaves a tick and no line.
\<close>

definition check_response :: "world \<Rightarrow> response \<Rightarrow> body \<Rightarrow> state \<Rightarrow> (raised + body) \<times> state" where
  "check_response w resp result s =
     (if status_code resp \<noteq> 200 then
        (Inl (SystemExit (ArgStr (''Error '' @ str_nat (status_code resp) @ '': '' @ reason resp))),
         print_stamped w ''API request failed: HTTP error'' s)
      else
        (case b_error result of
           Some err \<Rightarrow>
             (case subscript err ''message'' of
                Inl e \<Rightarrow> (Inl (Exception e), tick s)
              | Inr m \<Rightarrow>
                  (Inl (SystemExit (ArgJson err)),
                   print_stamped w (''API request failed: '' @ str_json w m) s))
         | None \<Rightarrow> (Inr result, print_stamped w ''News collected, processing...'' s)))"

text \<open>
  The \<open>try\<close> block: \<open>requests.get(url)\<close>, then \<open>response.json()\<close>, with the handler
  for \<open>RequestException\<close>.
\<close>

definition send_request :: "world \<Rightarrow> string \<Rightarrow> state \<Rightarrow> (raised + response \<times> body) \<times> state" where
  "send_request w url s =
     (let s1 = s\<lparr>requests := requests s @ [url]\<rparr> in
      case http_get w url of
        Inl m \<Rightarrow>
          (Inl (SystemExit (ArgExc (RequestException m))),
           print_stamped w ''API request failed: connection error'' s1)
      | Inr resp \<Rightarrow>
          (case resp_json resp of
             None \<Rightarrow>
               (if decode_error_is_request_exception w then
                  (Inl (SystemExit (ArgExc (JSONDecodeError (decode_error w)))),
                   print_stamped w ''API request failed: connection error'' s1)
                else (Inl (Exception (JSONDecodeError (decode_error w))), s1))
           | Some result \<Rightarrow> (Inr (resp, result), s1)))"

text \<open>The branch of \<open>if not API_KEY\<close>: the variable is unset, or set to the empty string.\<close>

definition no_api_key :: "world \<Rightarrow> state \<Rightarrow> (raised + body) \<times> state" where
  "no_api_key w s =
     (Inl (SystemExit (ArgStr ''Missing API Key'')),
      print_stamped w ''Error: API Key not found! Check your .env file.'' s)"

definition fetch :: "world \<Rightarrow> state \<Rightarrow> (raised + body) \<times> state" where
  "fetch w s =
     (case api_key w of
        None \<Rightarrow> no_api_key w s
      | Some API_KEY \<Rightarrow>
          (if API_KEY = [] then no_api_key w s
           else
             (let url = request_url API_KEY;
                  s1 = print_stamped w ''Collecting news...'' s
              in case send_request w url s1 of
                   (Inl e, s2) \<Rightarrow> (Inl e, s2)
                 | (Inr (resp, result), s2) \<Rightarrow> check_response w resp result s2)))"

text \<open>
  The four fatal errors of the Fetcher, read off the world: the argument of the
  \<open>SystemExit\<close> for a missing key (configuration), for a request that fails (transport),
  for a JSON body with a status other than 200 (protocol), and for a JSON body with status
  200 and an \<open>error\<close> object that has a \<open>message\<close> (application); \<open>None\<close> in
  every other world. It is stated apart from \<open>fetch\<close>, to be compared with it.
\<close>

definition fetcher_error :: "world \<Rightarrow> exit_arg option" where
  "fetcher_error w =
     (case api_key w of
        None \<Rightarrow> Some (ArgStr ''Missing API Key'')
      | Some k \<Rightarrow>
          (if k = [] then Some (ArgStr ''Missing API Key'')
           else
             (case http_get w (request_url k) of
                Inl m \<Rightarrow> Some (ArgExc (RequestException m))
              | Inr resp \<Rightarrow>
                  (case resp_json resp of
                     None \<Rightarrow> None
                   | Some result \<Rightarrow>
                       (if status_code resp \<noteq> 200 then
                          Some (ArgStr (''Error '' @ str_nat (status_code resp) @ '': '' @ reason resp))
                        else
                          (case b_error result of
                             None \<Rightarrow> None
                           | Some err \<Rightarrow>
                               (case subscript err ''message'' of
                                  Inl e \<Rightarrow> None
                                | Inr m \<Rightarrow> Some (ArgJson err))))))))"

subsection \<open>process\<close>

text \<open>
  \<open>pd.DataFrame.from_records\<close> on a list of dicts with the columns given: one row per
  dict, one cell per column, the missing-value marker where the dict has no such key.
\<close>

definition cell :: "(string \<times> json) list \<Rightarrow> string \<Rightarrow> json" where
  "cell r c = (case map_of r c of None \<Rightarrow> JNull | Some v \<Rightarrow> v)"

definition from_records :: "(string \<times> json) list list \<Rightarrow> string list \<Rightarrow> dataframe" where
  "from_records recs cols = \<lparr>df_columns = cols, df_rows = map (\<lambda>r. map (cell r) cols) recs\<rparr>"

definition process :: "body \<Rightarrow> raised + dataframe" where
  "process result =
     (case b_data result of
        None \<Rightarrow> Inl (Exception (KeyError ''data''))
      | Some recs \<Rightarrow> Inr (from_records recs columns))"

subsection \<open>store\<close>

text \<open>The statement sent first, and what it does to the database.\<close>

fun join :: "string \<Rightarrow> string list \<Rightarrow> string" where
  "join sep [] = []"
| "join sep [x] = x"
| "join sep (x # y # ys) = x @ sep @ join sep (y # ys)"

definition query_columns :: string where
  "query_columns = join '', '' (map (\<lambda>c. c @ '' TEXT'') columns)"

definition create_db_query :: string where
  "create_db_query = ''CREATE TABLE IF NOT EXISTS news ('' @ query_columns @ '')''"

definition create_if_not_exists :: "table option \<Rightarrow> table option" where
  "create_if_not_exists t =
     (case t of
        None \<Rightarrow> Some \<lparr>schema = map (\<lambda>c. (c, ''TEXT'')) columns, t_rows = []\<rparr>
      | Some old \<Rightarrow> Some old)"

definition csv_name :: "datetime \<Rightarrow> string" where
  "csv_name d = ''news_'' @ strftime_date d @ ''.csv''"

text \<open>
  \<open>commit()\<close> on the connection: the rows of the open transaction become rows of the
  table; with no transaction open it does nothing.
\<close>

definition commit :: "state \<Rightarrow> state" where
  "commit s =
     s\<lparr>news := map_option (\<lambda>t. t\<lparr>t_rows := t_rows t @ (case txn s of None \<Rightarrow> [] | Some p \<Rightarrow> p)\<rparr>) (news s),
       txn := None\<rparr>"

text \<open>
  \<open>rollback()\<close> on the connection: the rows of the open transaction are dropped; with
  no transaction open it does nothing.
\<close>

definition rollback :: "state \<Rightarrow> state" where
  "rollback s = s\<lparr>txn := None\<rparr>"

text \<open>\<open>conn.close()\<close>: SQLite drops a transaction that is still open.\<close>

definition close :: "state \<Rightarrow> state" where
  "close s = s\<lparr>open_conns := open_conns s - 1, txn := None\<rparr>"

text \<open>The \<open>INSERT\<close> of some rows: they join the open transaction and are not yet committed.\<close>

definition insert_rows :: "json list list \<Rightarrow> state \<Rightarrow> state" where
  "insert_rows rs s = s\<lparr>txn := Some ((case txn s of None \<Rightarrow> [] | Some p \<Rightarrow> p) @ rs)\<rparr>"

text \<open>
  \<open>df.to_sql('news', con=conn, if_exists="append", index=False)\<close> on a
  \<open>sqlite3\<close> connection. pandas runs the inserts inside its own
  \<open>run_transaction\<close>: it commits on the connection when they have passed, and when one
  of them (or that commit) raises, it rolls back on the connection and raises again. Either
  way no transaction is open when \<open>to_sql\<close> is left.
\<close>

definition to_sql :: "world \<Rightarrow> dataframe \<Rightarrow> state \<Rightarrow> (py_exception + unit) \<times> state" where
  "to_sql w df s =
     (case to_sql_fault w of
        Some (k, m) \<Rightarrow> (Inl (DatabaseError m), rollback (insert_rows (take k (df_rows df)) s))
      | None \<Rightarrow> (Inr (), commit (insert_rows (df_rows df) s)))"

text \<open>The handler \<open>except Exception as e\<close> of \<open>store\<close>.\<close>

definition store_except :: "world \<Rightarrow> dataframe \<Rightarrow> py_exception \<Rightarrow> state \<Rightarrow> (raised + unit) \<times> state" where
  "store_except w df e s =
     (let s1 = print (str_exc e) s;
          s2 = print_stamped w ''Failed to save the news to the database, saving to CSV...'' s1
      in case rollback_fault w of
           Some m \<Rightarrow> (Inl (Exception (DatabaseError m)), s2)
         | None \<Rightarrow>
             (let s3 = rollback s2;
                  name = csv_name (now w s3);
                  s4 = tick s3
              in case to_csv_fault w of
                   Some m \<Rightarrow> (Inl (Exception (OSError m)), s4)
                 | None \<Rightarrow>
                     (Inr (), print_stamped w ''News saved to CSV''
                                (s4\<lparr>files := (files s4)(name \<mapsto> df)\<rparr>))))"

text \<open>
  The \<open>try\<close> block of \<open>store\<close> with its handler. The \<open>conn.commit()\<close> of
  \<open>store\<close> comes after \<open>to_sql\<close> has committed: it finds no transaction open.
\<close>

definition store_try :: "world \<Rightarrow> dataframe \<Rightarrow> state \<Rightarrow> (raised + unit) \<times> state" where
  "store_try w df s =
     (case to_sql w df s of
        (Inl e, s1) \<Rightarrow> store_except w df e s1
      | (Inr u, s1) \<Rightarrow>
          (case commit_fault w of
             Some m \<Rightarrow> store_except w df (DatabaseError m) s1
           | None \<Rightarrow> (Inr (), print_stamped w ''News saved successfully'' (commit s1))))"

text \<open>
  \<open>store\<close>: connect, create the table, begin, then the \<open>try\<close> statement, whose
  \<open>finally\<close> clause closes the connection however the block was left. The three
  statements before the \<open>try\<close> are outside it.
\<close>

definition store :: "world \<Rightarrow> dataframe \<Rightarrow> state \<Rightarrow> (raised + unit) \<times> state" where
  "store w df s =
     (case connect_fault w of
        Some m \<Rightarrow> (Inl (Exception (DatabaseError m)), s)
      | None \<Rightarrow>
          (let s1 = s\<lparr>open_conns := Suc (open_conns s)\<rparr> in
           case create_fault w of
             Some m \<Rightarrow> (Inl (Exception (DatabaseError m)), s1)
           | None \<Rightarrow>
               (let s2 = s1\<lparr>news := create_if_not_exists (news s1)\<rparr>;
                    s3 = print_stamped w ''Saving into the database...'' s2
                in case begin_fault w of
                     Some m \<Rightarrow> (Inl (Exception (DatabaseError m)), s3)
                   | None \<Rightarrow>
                       (case store_try w df (s3\<lparr>txn := Some []\<rparr>) of
                          (r, s4) \<Rightarrow> (r, close s4)))))"

text \<open>
  The state in which the \<open>try\<close> statement of \<open>store\<close> is entered: connected, the
  table created, the line printed, the transaction begun.
\<close>

definition begun :: "world \<Rightarrow> state \<Rightarrow> state" where
  "begun w s =
     (print_stamped w ''Saving into the database...''
        (s\<lparr>open_conns := Suc (open_conns s), news := create_if_not_exists (news s)\<rparr>))
     \<lparr>txn := Some []\<rparr>"

subsection \<open>main and run_periodically\<close>

definition main :: "world \<Rightarrow> state \<Rightarrow> (raised + unit) \<times> state" where
  "main w s =
     (case fetch w s of
        (Inl e, s1) \<Rightarrow> (Inl e, s1)
      | (Inr result, s1) \<Rightarrow>
          (case process result of
             Inl e \<Rightarrow> (Inl e, s1)
           | Inr df \<Rightarrow> store w df s1))"

definition sleep :: "nat \<Rightarrow> state \<Rightarrow> state" where
  "sleep secs s = s\<lparr>sleeps := sleeps s @ [secs]\<rparr>"

text \<open>
  One pass of the loop body of \<open>run_periodically\<close>: \<open>main()\<close>, the handler for
  \<open>SystemExit\<close>, and the \<open>finally\<close> clause that sleeps on every way out.
\<close>

definition iteration :: "nat \<Rightarrow> world \<Rightarrow> state \<Rightarrow> (raised + unit) \<times> state" where
  "iteration interval_seconds w s =
     (case main w s of
        (Inl (SystemExit a), s1) \<Rightarrow>
          (Inr (),
           sleep interval_seconds
             (print_stamped w (''Error: '' @ [CHR 0x22] @ str_arg w a @ [CHR 0x22] @
                               ''. Repeating in '' @ str_nat interval_seconds @ '' seconds'') s1))
      | (r, s1) \<Rightarrow> (r, sleep interval_seconds s1))"

text \<open>
  \<open>while True\<close>: the loop takes one world per pass and runs as long as worlds are given.
  It ends before that only with an exception; \<open>Inr ()\<close> says that it is still running
  when the given worlds are used up.
\<close>

fun run_periodically :: "nat \<Rightarrow> world list \<Rightarrow> state \<Rightarrow> (raised + unit) \<times> state" where
  "run_periodically interval_seconds [] s = (Inr (), s)"
| "run_periodically interval_seconds (w # ws) s =
     (case iteration interval_seconds w s of
        (Inl e, s1) \<Rightarrow> (Inl e, s1)
      | (Inr u, s1) \<Rightarrow> run_periodically interval_seconds ws s1)"

subsection \<open>Observations and example runs\<close>

text \<open>What \<open>SELECT COUNT(*) FROM news\<close> would answer; a table that does not exist has no rows.\<close>

definition row_count :: "state \<Rightarrow> nat" where
  "row_count s = (case news s of None \<Rightarrow> 0 | Some t \<Rightarrow> length (t_rows t))"

text \<open>Two article records: the first has no \<open>image\<close> key and a key outside the schema.\<close>

definition demo_records :: "(string \<times> json) list list" where
  "demo_records =
     [[(''title'', JStr ''How to read burnt scrolls''), (''author'', JNull),
       (''url'', JStr ''https://example.org/a''), (''rank'', JNum 7)],
      [(''author'', JStr ''Romain Dillet''), (''title'', JStr ''Investments reach 85B''),
       (''image'', JStr ''https://example.org/b.png''), (''language'', JStr ''en'')]]"

definition demo_clock :: "nat \<Rightarrow> datetime" where
  "demo_clock n =
     \<lparr>dt_year = 2025, dt_month = 2, dt_day = 9, dt_hour = 22, dt_minute = 55, dt_second = n\<rparr>"

definition demo_response :: response where
  "demo_response =
     \<lparr>status_code = 200, reason = ''OK'',
      resp_json = Some \<lparr>b_error = None, b_data = Some demo_records\<rparr>\<rparr>"

text \<open>A world in which everything works: a key, a good response, no fault.\<close>

definition calm :: world where
  "calm =
     \<lparr>api_key = Some ''s3cret'',
      http_get = (\<lambda>url. Inr demo_response),
      decode_error_is_request_exception = True,
      decode_error = ''Expecting value: line 1 column 1 (char 0)'',
      str_json = (\<lambda>j. case j of JStr m \<Rightarrow> m | _ \<Rightarrow> ''<json>''),
      clock = demo_clock,
      connect_fault = None, create_fault = None, begin_fault = None,
      to_sql_fault = None, commit_fault = None, rollback_fault = None, to_csv_fault = None\<rparr>"

text \<open>Before the first run: nothing requested, printed or written, no table, no connection.\<close>

definition fresh :: state where
  "fresh =
     \<lparr>requests = [], stdout = [], ticks = 0, news = None, open_conns = 0, txn = None,
      files = Map.empty, sleeps = []\<rparr>"

definition demo_df :: dataframe where
  "demo_df = from_records demo_records columns"

text \<open>A database that already holds the rows of an earlier run.\<close>

definition stocked :: state where
  "stocked =
     fresh\<lparr>news := Some \<lparr>schema = map (\<lambda>c. (c, ''TEXT'')) columns, t_rows = df_rows demo_df\<rparr>\<rparr>"

text \<open>The API answers 429 with a JSON error body.\<close>

definition throttled :: world where
  "throttled =
     calm\<lparr>http_get := (\<lambda>url. Inr
       \<lparr>status_code = 429, reason = ''Too Many Requests'',
        resp_json = Some \<lparr>b_error = Some (JDict [(''code'', JStr ''rate_limit_reached''),
                                                  (''message'', JStr ''Rate limit reached'')]),
                           b_data = None\<rparr>\<rparr>)\<rparr>"

text \<open>A gateway in front of the API answers 502 with an HTML page, which is not JSON.\<close>

definition bad_gateway :: world where
  "bad_gateway =
     calm\<lparr>http_get := (\<lambda>url. Inr \<lparr>status_code = 502, reason = ''Bad Gateway'', resp_json = None\<rparr>)\<rparr>"

text \<open>The connection to the API is refused.\<close>

definition refused :: world where
  "refused = calm\<lparr>http_get := (\<lambda>url. Inl ''Connection refused'')\<rparr>"

text \<open>The API answers 200 with an error object.\<close>

definition invalid_key :: world where
  "invalid_key =
     calm\<lparr>http_get := (\<lambda>url. Inr
       \<lparr>status_code = 200, reason = ''OK'',
        resp_json = Some \<lparr>b_error = Some (JDict [(''code'', JStr ''invalid_access_key''),
                                                  (''message'', JStr ''Invalid access key'')]),
                           b_data = None\<rparr>\<rparr>)\<rparr>"

text \<open>The API answers 200 with an error object that has no \<open>message\<close>.\<close>

definition no_message :: world where
  "no_message =
     calm\<lparr>http_get := (\<lambda>url. Inr
       \<lparr>status_code = 200, reason = ''OK'',
        resp_json = Some \<lparr>b_error = Some (JDict [(''code'', JStr ''rate_limit_reached'')]),
                           b_data = None\<rparr>\<rparr>)\<rparr>"

text \<open>The API answers 200 with a JSON object that has neither \<open>error\<close> nor \<open>data\<close>.\<close>

definition no_data :: world where
  "no_data =
     calm\<lparr>http_get := (\<lambda>url. Inr
       \<lparr>status_code = 200, reason = ''OK'', resp_json = Some \<lparr>b_error = None, b_data = None\<rparr>\<rparr>)\<rparr>"

section \<open>Properties\<close>

subsection \<open>Basic facts\<close>

lemma str_nat_100: "str_nat 100 = ''100''"
  by (simp add: str_nat.simps digit_def)

lemma print_stamped_sel [simp]:
  "requests (print_stamped w m s) = requests s"
  "stdout (print_stamped w m s) = stdout s @ [stamped w s m]"
  "ticks (print_stamped w m s) = Suc (ticks s)"
  "news (print_stamped w m s) = news s"
  "open_conns (print_stamped w m s) = open_conns s"
  "txn (print_stamped w m s) = txn s"
  "files (print_stamped w m s) = files s"
  "sleeps (print_stamped w m s) = sleeps s"
  by (simp_all add: print_stamped_def print_def tick_def)

lemma tick_sel [simp]:
  "requests (tick s) = requests s"
  "stdout (tick s) = stdout s"
  "ticks (tick s) = Suc (ticks s)"
  "news (tick s) = news s"
  "open_conns (tick s) = open_conns s"
  "txn (tick s) = txn s"
  "files (tick s) = files s"
  "sleeps (tick s) = sleeps s"
  by (simp_all add: tick_def)

lemma print_sel [simp]:
  "requests (print l s) = requests s"
  "stdout (print l s) = stdout s @ [l]"
  "ticks (print l s) = ticks s"
  "news (print l s) = news s"
  "open_conns (print l s) = open_conns s"
  "txn (print l s) = txn s"
  "files (print l s) = files s"
  "sleeps (print l s) = sleeps s"
  by (simp_all add: print_def)

lemma print_stamped_api_key [simp]:
  "print_stamped (w\<lparr>api_key := k\<rparr>) m s = print_stamped w m s"
  by (simp add: print_stamped_def stamped_def curr_time_def now_def)

lemma send_request_requests: "requests (snd (send_request w url s)) = requests s @ [url]"
  by (simp add: send_request_def Let_def split: sum.splits option.splits)

lemma check_response_requests: "requests (snd (check_response w resp result s)) = requests s"
  by (simp add: check_response_def split: sum.splits option.splits)

lemma no_api_key_requests: "requests (snd (no_api_key w s)) = requests s"
  by (simp add: no_api_key_def)

lemma fetch_with_key_requests:
  assumes "api_key w = Some k" and "k \<noteq> []"
  shows "requests (snd (fetch w s)) = requests s @ [request_url k]"
proof (cases "send_request w (request_url k) (print_stamped w ''Collecting news...'' s)")
  case (Pair r s2)
  have rq: "requests s2 = requests s @ [request_url k]"
    using send_request_requests [of w "request_url k" "print_stamped w ''Collecting news...'' s"] Pair
    by simp
  show ?thesis
  proof (cases r)
    case (Inl e)
    with Pair rq assms show ?thesis by (simp add: fetch_def Let_def)
  next
    case (Inr p)
    obtain resp result where p: "p = (resp, result)" by (cases p)
    with Inr Pair rq assms show ?thesis
      by (simp add: fetch_def Let_def check_response_requests)
  qed
qed

subsection \<open>The missing key\<close>

text \<open>
  Claim C2. When the credential lookup yields no API key, \<open>fetch\<close> raises
  \<open>SystemExit("Missing API Key")\<close> after printing one line, and the list of requests
  sent is what it was before: no request is attempted, neither by \<open>fetch\<close> nor by the
  run of \<open>main\<close> that called it.
\<close>

theorem fetch_without_key_raises_before_request:
  assumes "api_key w = None"
  shows "fetch w s =
           (Inl (SystemExit (ArgStr ''Missing API Key'')),
            print_stamped w ''Error: API Key not found! Check your .env file.'' s)
         \<and> requests (snd (fetch w s)) = requests s
         \<and> fst (main w s) = Inl (SystemExit (ArgStr ''Missing API Key''))
         \<and> requests (snd (main w s)) = requests s"
  using assms by (simp add: fetch_def no_api_key_def main_def)

theorem fetch_without_key_raises_before_request_witness:
  "api_key (calm\<lparr>api_key := None\<rparr>) = None
   \<and> fst (fetch (calm\<lparr>api_key := None\<rparr>) fresh) = Inl (SystemExit (ArgStr ''Missing API Key''))
   \<and> requests (snd (fetch (calm\<lparr>api_key := None\<rparr>) fresh)) = []
   \<and> requests (snd (main (calm\<lparr>api_key := None\<rparr>) fresh)) = []"
  using fetch_without_key_raises_before_request [of "calm\<lparr>api_key := None\<rparr>" fresh]
  by (simp add: fresh_def)

text \<open>
  Claim C9. A key that is set to the empty string is treated as an absent key: \<open>fetch\<close>
  (and with it \<open>main\<close>) returns exactly what it returns when the key is unset, which is
  the configuration error, with no request sent.
\<close>

theorem fetch_empty_key_as_absent:
  assumes "api_key w = Some []"
  shows "fetch w s = fetch (w\<lparr>api_key := None\<rparr>) s
         \<and> fst (fetch w s) = Inl (SystemExit (ArgStr ''Missing API Key''))
         \<and> requests (snd (fetch w s)) = requests s
         \<and> main w s = main (w\<lparr>api_key := None\<rparr>) s"
  using assms by (simp add: fetch_def no_api_key_def main_def)

theorem fetch_empty_key_as_absent_witness:
  "api_key (calm\<lparr>api_key := Some []\<rparr>) = Some []
   \<and> fetch (calm\<lparr>api_key := Some []\<rparr>) fresh = fetch (calm\<lparr>api_key := None\<rparr>) fresh
   \<and> fst (fetch (calm\<lparr>api_key := Some []\<rparr>) fresh) = Inl (SystemExit (ArgStr ''Missing API Key''))
   \<and> requests (snd (fetch (calm\<lparr>api_key := Some []\<rparr>) fresh)) = []"
proof -
  have h: "api_key (calm\<lparr>api_key := Some []\<rparr>) = Some []" by simp
  have r: "requests fresh = []" by (simp add: fresh_def)
  from fetch_empty_key_as_absent [OF h, of fresh] r h show ?thesis by auto
qed

subsection \<open>The request\<close>

text \<open>
  Claim C6. With a key that is present (set and not empty, the case the code goes on with),
  \<open>fetch\<close> calls \<open>requests.get\<close> exactly once, whatever the answer is (a
  transport failure, any status, any body): the list of requests grows by the one URL
  \<open>BASE_URL/news?access_key=key&languages=en&keywords=ai&sort=published_desc&limit=100\<close>.
\<close>

theorem fetch_one_get_request:
  assumes "api_key w = Some k" and "k \<noteq> []"
  shows "requests (snd (fetch w s)) =
           requests s @ [BASE_URL @ ''/news?access_key='' @ k @
                         ''&languages=en&keywords=ai&sort=published_desc&limit=100'']"
  using fetch_with_key_requests [OF assms] by (simp add: request_url_def num_articles_def str_nat_100)

theorem fetch_one_get_request_witness:
  "api_key calm = Some ''s3cret'' \<and> ''s3cret'' \<noteq> []
   \<and> requests (snd (fetch calm fresh)) =
       [''http://api.mediastack.com/v1/news?access_key=s3cret&languages=en&keywords=ai&sort=published_desc&limit=100'']"
proof -
  have h: "api_key calm = Some ''s3cret''" by (simp add: calm_def)
  have n: "''s3cret'' \<noteq> []" by simp
  have r: "requests fresh = []" by (simp add: fresh_def)
  from fetch_one_get_request [OF h n, of fresh] have
    "requests (snd (fetch calm fresh)) =
       [''http://api.mediastack.com/v1/news?access_key=s3cret&languages=en&keywords=ai&sort=published_desc&limit=100'']"
    by (simp add: r BASE_URL_def)
  with h n show ?thesis by simp
qed


subsection \<open>The Normalizer\<close>

lemma length_columns: "length columns = 10"
  by (simp add: columns_def)

lemma rows_cong:
  "list_all2 (\<lambda>r r'. \<forall>c\<in>set cols. map_of r c = map_of r' c) recs recs' \<Longrightarrow>
   map (\<lambda>r. map (cell r) cols) recs = map (\<lambda>r. map (cell r) cols) recs'"
  by (induction rule: list_all2_induct) (auto simp: cell_def)

lemma from_records_rows:
  "length (df_rows (from_records recs cols)) = length recs"
  "i < length recs \<Longrightarrow> df_rows (from_records recs cols) ! i = map (cell (recs ! i)) cols"
  "row \<in> set (df_rows (from_records recs cols)) \<Longrightarrow> length row = length cols"
  "df_columns (from_records recs cols) = cols"
  by (auto simp: from_records_def)

text \<open>
  Claim C3. For a response body whose \<open>data\<close> list has N records, \<open>process\<close>
  returns a table with the ten schema columns in their fixed order and N rows in the order
  of the records; every row has ten cells, the j-th cell being the record's value under the
  j-th column and null where the record has no such key; and the table depends on the
  records' values under the ten schema keys only, so every other key is dropped.
  \<open>process\<close> takes no world and no state: it reads and writes nothing outside, and its
  result is a function of the body.
\<close>

theorem process_normalizes:
  assumes "b_data result = Some recs"
  shows "\<exists>df. process result = Inr df
           \<and> df_columns df = columns
           \<and> length (df_rows df) = length recs
           \<and> (\<forall>i<length recs. df_rows df ! i = map (cell (recs ! i)) columns)
           \<and> (\<forall>row\<in>set (df_rows df). length row = 10)
           \<and> (\<forall>i<length recs. \<forall>j<10.
                 df_rows df ! i ! j =
                   (case map_of (recs ! i) (columns ! j) of None \<Rightarrow> JNull | Some v \<Rightarrow> v))
           \<and> (\<forall>recs'. list_all2 (\<lambda>r r'. \<forall>c\<in>set columns. map_of r c = map_of r' c) recs recs'
                 \<longrightarrow> process (result\<lparr>b_data := Some recs'\<rparr>) = Inr df)"
proof -
  let ?df = "from_records recs columns"
  have p: "process result = Inr ?df"
    using assms by (simp add: process_def)
  have c: "df_columns ?df = columns" by (simp add: from_records_rows)
  have n: "length (df_rows ?df) = length recs" by (simp add: from_records_rows)
  have r: "\<forall>i<length recs. df_rows ?df ! i = map (cell (recs ! i)) columns"
    by (simp add: from_records_rows)
  have l: "\<forall>row\<in>set (df_rows ?df). length row = 10"
    using from_records_rows(3) [of _ recs columns] by (simp add: length_columns)
  have a: "\<forall>i<length recs. \<forall>j<10.
             df_rows ?df ! i ! j =
               (case map_of (recs ! i) (columns ! j) of None \<Rightarrow> JNull | Some v \<Rightarrow> v)"
    by (simp add: from_records_rows length_columns cell_def)
  have d: "\<forall>recs'. list_all2 (\<lambda>r r'. \<forall>c\<in>set columns. map_of r c = map_of r' c) recs recs'
             \<longrightarrow> process (result\<lparr>b_data := Some recs'\<rparr>) = Inr ?df"
  proof (intro allI impI)
    fix recs'
    assume "list_all2 (\<lambda>r r'. \<forall>c\<in>set columns. map_of r c = map_of r' c) recs recs'"
    from rows_cong [OF this] show "process (result\<lparr>b_data := Some recs'\<rparr>) = Inr ?df"
      by (simp add: process_def from_records_def)
  qed
  from p c n r l a d show ?thesis by blast
qed

theorem process_normalizes_witness:
  "b_data \<lparr>b_error = None, b_data = Some demo_records\<rparr> = Some demo_records
   \<and> (\<exists>df. process \<lparr>b_error = None, b_data = Some demo_records\<rparr> = Inr df
         \<and> df_columns df = columns
         \<and> length (df_rows df) = 2
         \<and> df_rows df ! 0 =
             [JNull, JStr ''How to read burnt scrolls'', JNull, JStr ''https://example.org/a'',
              JNull, JNull, JNull, JNull, JNull, JNull]
         \<and> df_rows df ! 0 ! 5 = JNull)"
proof -
  let ?b = "\<lparr>b_error = None, b_data = Some demo_records\<rparr>"
  have h: "b_data ?b = Some demo_records" by simp
  have len: "length demo_records = 2" by (simp add: demo_records_def)
  have row0: "map (cell (demo_records ! 0)) columns =
      [JNull, JStr ''How to read burnt scrolls'', JNull, JStr ''https://example.org/a'',
       JNull, JNull, JNull, JNull, JNull, JNull]"
    by (simp add: demo_records_def columns_def cell_def)
  from process_normalizes [OF h] obtain df where
    p: "process ?b = Inr df" and c: "df_columns df = columns"
    and n: "length (df_rows df) = length demo_records"
    and r: "\<forall>i<length demo_records. df_rows df ! i = map (cell (demo_records ! i)) columns"
    by blast
  from r len have r0: "df_rows df ! 0 = map (cell (demo_records ! 0)) columns" by simp
  from p c n r0 len row0 show ?thesis by simp
qed

subsection \<open>What a run leaves untouched, and how it ends\<close>

lemma sleep_sel [simp]:
  "requests (sleep n s) = requests s"
  "stdout (sleep n s) = stdout s"
  "ticks (sleep n s) = ticks s"
  "news (sleep n s) = news s"
  "open_conns (sleep n s) = open_conns s"
  "txn (sleep n s) = txn s"
  "files (sleep n s) = files s"
  "sleeps (sleep n s) = sleeps s @ [n]"
  by (simp_all add: sleep_def)

lemma send_request_sleeps: "sleeps (snd (send_request w url s)) = sleeps s"
  by (simp add: send_request_def Let_def split: sum.splits option.splits)

lemma check_response_sleeps: "sleeps (snd (check_response w resp result s)) = sleeps s"
  by (simp add: check_response_def split: sum.splits option.splits)

lemma fetch_with_key:
  assumes "api_key w = Some k" and "k \<noteq> []"
  shows "fetch w s =
           (case send_request w (request_url k) (print_stamped w ''Collecting news...'' s) of
              (Inl e, s2) \<Rightarrow> (Inl e, s2)
            | (Inr (resp, result), s2) \<Rightarrow> check_response w resp result s2)"
  using assms by (simp add: fetch_def Let_def)

lemma fetch_sleeps: "sleeps (snd (fetch w s)) = sleeps s"
proof (cases "api_key w")
  case None
  then show ?thesis by (simp add: fetch_def no_api_key_def)
next
  case (Some k)
  show ?thesis
  proof (cases "k = []")
    case True
    with Some show ?thesis by (simp add: fetch_def no_api_key_def)
  next
    case False
    obtain r s2 where sr: "send_request w (request_url k) (print_stamped w ''Collecting news...'' s) = (r, s2)"
      by (cases "send_request w (request_url k) (print_stamped w ''Collecting news...'' s)")
    have s2: "sleeps s2 = sleeps s"
      using send_request_sleeps [of w "request_url k" "print_stamped w ''Collecting news...'' s"] sr
      by simp
    show ?thesis
      using fetch_with_key [OF Some False, of s] sr s2
      by (cases r) (auto simp: check_response_sleeps)
  qed
qed

lemma store_except_sleeps: "sleeps (snd (store_except w df e s)) = sleeps s"
  by (simp add: store_except_def Let_def rollback_def split: option.splits)

lemma insert_rows_sel [simp]:
  "requests (insert_rows rs s) = requests s"
  "stdout (insert_rows rs s) = stdout s"
  "ticks (insert_rows rs s) = ticks s"
  "news (insert_rows rs s) = news s"
  "open_conns (insert_rows rs s) = open_conns s"
  "files (insert_rows rs s) = files s"
  "sleeps (insert_rows rs s) = sleeps s"
  "txn (insert_rows rs s) = Some ((case txn s of None \<Rightarrow> [] | Some p \<Rightarrow> p) @ rs)"
  by (simp_all add: insert_rows_def)

lemma commit_sel [simp]:
  "requests (commit s) = requests s"
  "stdout (commit s) = stdout s"
  "ticks (commit s) = ticks s"
  "open_conns (commit s) = open_conns s"
  "files (commit s) = files s"
  "sleeps (commit s) = sleeps s"
  "txn (commit s) = None"
  by (simp_all add: commit_def)

lemma rollback_sel [simp]:
  "requests (rollback s) = requests s"
  "stdout (rollback s) = stdout s"
  "ticks (rollback s) = ticks s"
  "news (rollback s) = news s"
  "open_conns (rollback s) = open_conns s"
  "files (rollback s) = files s"
  "sleeps (rollback s) = sleeps s"
  "txn (rollback s) = None"
  by (simp_all add: rollback_def)

lemma close_sel [simp]:
  "requests (close s) = requests s"
  "stdout (close s) = stdout s"
  "ticks (close s) = ticks s"
  "news (close s) = news s"
  "open_conns (close s) = open_conns s - 1"
  "files (close s) = files s"
  "sleeps (close s) = sleeps s"
  "txn (close s) = None"
  by (simp_all add: close_def)

lemma to_sql_cases:
  "to_sql_fault w = Some (k, m) \<Longrightarrow>
   to_sql w df s = (Inl (DatabaseError m), rollback (insert_rows (take k (df_rows df)) s))"
  "to_sql_fault w = None \<Longrightarrow> to_sql w df s = (Inr (), commit (insert_rows (df_rows df) s))"
  by (simp_all add: to_sql_def)

lemma to_sql_sel [simp]:
  "requests (snd (to_sql w df s)) = requests s"
  "stdout (snd (to_sql w df s)) = stdout s"
  "ticks (snd (to_sql w df s)) = ticks s"
  "open_conns (snd (to_sql w df s)) = open_conns s"
  "files (snd (to_sql w df s)) = files s"
  "sleeps (snd (to_sql w df s)) = sleeps s"
  "txn (snd (to_sql w df s)) = None"
  by (simp_all add: to_sql_def split: option.splits prod.splits)

text \<open>The \<open>try\<close> block is the handler or the last line, from the state \<open>to_sql\<close> left.\<close>

lemma store_try_cases:
  "(\<exists>e. store_try w df s = store_except w df e (snd (to_sql w df s)))
   \<or> store_try w df s =
       (Inr (), print_stamped w ''News saved successfully'' (commit (snd (to_sql w df s))))"
  by (cases "to_sql w df s"; cases "fst (to_sql w df s)"; cases "commit_fault w")
     (auto simp: store_try_def)

lemma store_try_sleeps: "sleeps (snd (store_try w df s)) = sleeps s"
  using store_try_cases [of w df s] by (auto simp: store_except_sleeps)

lemma store_sleeps: "sleeps (snd (store w df s)) = sleeps s"
proof -
  have "sleeps (snd (case store_try w df s' of (r, s4) \<Rightarrow> (r, close s4))) = sleeps s'" for s'
    using store_try_sleeps [of w df s'] by (cases "store_try w df s'") simp
  then show ?thesis
    by (simp add: store_def Let_def split: option.splits)
qed

lemma main_sleeps: "sleeps (snd (main w s)) = sleeps s"
proof (cases "fetch w s")
  case (Pair r s1)
  with fetch_sleeps [of w s] have s1: "sleeps s1 = sleeps s" by simp
  show ?thesis
  proof (cases r)
    case (Inl e)
    with Pair s1 show ?thesis by (simp add: main_def)
  next
    case (Inr result)
    with Pair s1 show ?thesis
      by (cases "process result") (simp_all add: main_def store_sleeps)
  qed
qed

lemma main_fetch_raises: "fst (fetch w s) = Inl e \<Longrightarrow> main w s = (Inl e, snd (fetch w s))"
  by (cases "fetch w s") (simp add: main_def)

lemma iteration_sleeps: "sleeps (snd (iteration i w s)) = sleeps s @ [i]"
proof (cases "main w s")
  case (Pair r s1)
  with main_sleeps [of w s] have s1: "sleeps s1 = sleeps s" by simp
  show ?thesis
  proof (cases r)
    case (Inl e)
    with Pair s1 show ?thesis by (cases e) (simp_all add: iteration_def)
  next
    case (Inr u)
    with Pair s1 show ?thesis by (simp add: iteration_def)
  qed
qed

lemma iteration_catches:
  "main w s = (Inl (SystemExit a), s1) \<Longrightarrow>
   iteration i w s =
     (Inr (), sleep i (print_stamped w (''Error: '' @ [CHR 0x22] @ str_arg w a @ [CHR 0x22] @
                                        ''. Repeating in '' @ str_nat i @ '' seconds'') s1))"
  by (simp add: iteration_def)

lemma iteration_escapes:
  "main w s = (Inl (Exception e), s1) \<Longrightarrow> iteration i w s = (Inl (Exception e), sleep i s1)"
  by (simp add: iteration_def)

lemma iteration_returns:
  "main w s = (Inr u, s1) \<Longrightarrow> iteration i w s = (Inr u, sleep i s1)"
  by (simp add: iteration_def)

lemma run_periodically_step:
  "fst (iteration i w s) = Inr u \<Longrightarrow>
   run_periodically i (w # ws) s = run_periodically i ws (snd (iteration i w s))"
  by (cases "iteration i w s") simp

lemma run_periodically_stop:
  "fst (iteration i w s) = Inl e \<Longrightarrow> run_periodically i (w # ws) s = iteration i w s"
  by (cases "iteration i w s") simp

text \<open>
  The ways \<open>fetch\<close> ends once it has a key: a transport failure, a status other than
  200 on a JSON body, an \<open>error\<close> object with a message, or the body itself.
\<close>

lemma send_request_failed:
  "http_get w url = Inl m \<Longrightarrow>
   fst (send_request w url s) = Inl (SystemExit (ArgExc (RequestException m)))"
  by (simp add: send_request_def Let_def)

lemma send_request_ok:
  "http_get w url = Inr resp \<Longrightarrow> resp_json resp = Some result \<Longrightarrow>
   send_request w url s = (Inr (resp, result), s\<lparr>requests := requests s @ [url]\<rparr>)"
  by (simp add: send_request_def Let_def)

lemma fetch_transport_error:
  assumes "api_key w = Some k" and "k \<noteq> []" and "http_get w (request_url k) = Inl m"
  shows "fst (fetch w s) = Inl (SystemExit (ArgExc (RequestException m)))"
proof -
  let ?s1 = "print_stamped w ''Collecting news...'' s"
  from send_request_failed [OF assms(3), of ?s1] show ?thesis
    using fetch_with_key [OF assms(1,2), of s]
    by (cases "send_request w (request_url k) ?s1") auto
qed

lemma fetch_protocol_error:
  assumes "api_key w = Some k" and "k \<noteq> []" and "http_get w (request_url k) = Inr resp"
    and "resp_json resp = Some result" and "status_code resp \<noteq> 200"
  shows "fst (fetch w s) =
           Inl (SystemExit (ArgStr (''Error '' @ str_nat (status_code resp) @ '': '' @ reason resp)))"
  using fetch_with_key [OF assms(1,2), of s] send_request_ok [OF assms(3,4)] assms(5)
  by (simp add: check_response_def)

lemma fetch_application_error:
  assumes "api_key w = Some k" and "k \<noteq> []" and "http_get w (request_url k) = Inr resp"
    and "resp_json resp = Some result" and "status_code resp = 200"
    and "b_error result = Some err" and "subscript err ''message'' = Inr m"
  shows "fst (fetch w s) = Inl (SystemExit (ArgJson err))"
  using fetch_with_key [OF assms(1,2), of s] send_request_ok [OF assms(3,4)] assms(5,6,7)
  by (simp add: check_response_def)

lemma fetch_success:
  assumes "api_key w = Some k" and "k \<noteq> []" and "http_get w (request_url k) = Inr resp"
    and "resp_json resp = Some result" and "status_code resp = 200" and "b_error result = None"
  shows "fetch w s =
           (Inr result,
            print_stamped w ''News collected, processing...''
              ((print_stamped w ''Collecting news...'' s)
                 \<lparr>requests := requests s @ [request_url k]\<rparr>))"
  using fetch_with_key [OF assms(1,2), of s] send_request_ok [OF assms(3,4)] assms(5,6)
  by (simp add: check_response_def)

text \<open>
  As long as no run raises an \<open>Exception\<close>, the loop goes through every pass it is given
  and sleeps once per pass.
\<close>

lemma run_periodically_keeps_running:
  "(\<And>w s e. w \<in> set ws \<Longrightarrow> fst (main w s) \<noteq> Inl (Exception e)) \<Longrightarrow>
   fst (run_periodically i ws s) = Inr ()
   \<and> sleeps (snd (run_periodically i ws s)) = sleeps s @ replicate (length ws) i"
proof (induction ws arbitrary: s)
  case Nil
  show ?case by simp
next
  case (Cons w ws)
  have ok: "fst (iteration i w s) = Inr ()"
  proof (cases "main w s")
    case (Pair r s1)
    show ?thesis
    proof (cases r)
      case (Inl e)
      show ?thesis
      proof (cases e)
        case (SystemExit a)
        with Inl Pair show ?thesis by (simp add: iteration_def)
      next
        case (Exception x)
        with Inl Pair Cons.prems [of w s x] show ?thesis by simp
      qed
    next
      case (Inr u)
      with Pair show ?thesis by (simp add: iteration_def)
    qed
  qed
  have step: "run_periodically i (w # ws) s = run_periodically i ws (snd (iteration i w s))"
    using run_periodically_step [OF ok] .
  have rest: "fst (run_periodically i ws (snd (iteration i w s))) = Inr ()
    \<and> sleeps (snd (run_periodically i ws (snd (iteration i w s)))) =
        sleeps (snd (iteration i w s)) @ replicate (length ws) i"
    using Cons.IH [of "snd (iteration i w s)"] Cons.prems by simp
  show ?case
    using step rest iteration_sleeps [of i w s] by (simp add: replicate_app_Cons_same)
qed

lemmas fetch_eval =
  fetch_def no_api_key_def send_request_def check_response_def print_stamped_def print_def
  tick_def stamped_def curr_time_def now_def strftime_stamp_def strftime_date_def zfill_def
  str_nat.simps digit_def request_url_def num_articles_def BASE_URL_def Let_def
  calm_def fresh_def throttled_def bad_gateway_def no_data_def refused_def invalid_key_def
  no_message_def demo_clock_def

lemma str_nat_86400: "str_nat 86400 = ''86400''"
  by (simp add: str_nat.simps digit_def)

subsection \<open>Responses with a status other than 200\<close>

text \<open>
  Claim C4 says that every response with a status other than 200 makes \<open>fetch\<close> raise
  the error that carries the status code and the reason. For a body that parses as JSON this
  is \<open>fetch_protocol_error\<close> above. But \<open>fetch\<close> calls \<open>response.json()\<close>
  inside the \<open>try\<close> block, before it looks at the status: for the answer 502 Bad Gateway
  with an HTML body the call raises, and what leaves \<open>fetch\<close> is the decoding error,
  wrapped in a \<open>SystemExit\<close> and announced as a connection error when \<open>requests\<close>
  derives it from \<open>RequestException\<close>, and as it is otherwise. In neither case is it
  \<open>Error 502: Bad Gateway\<close>.
\<close>

theorem fetch_bad_gateway_is_not_reported_as_http_error:
  "fst (fetch bad_gateway fresh) =
     Inl (SystemExit (ArgExc (JSONDecodeError ''Expecting value: line 1 column 1 (char 0)'')))
   \<and> stdout (snd (fetch bad_gateway fresh)) =
       [''[2025-02-09 22:55:00] Collecting news...'',
        ''[2025-02-09 22:55:01] API request failed: connection error'']
   \<and> fst (fetch (bad_gateway\<lparr>decode_error_is_request_exception := False\<rparr>) fresh) =
       Inl (Exception (JSONDecodeError ''Expecting value: line 1 column 1 (char 0)''))
   \<and> fst (fetch bad_gateway fresh) \<noteq> Inl (SystemExit (ArgStr ''Error 502: Bad Gateway''))
   \<and> fst (fetch (bad_gateway\<lparr>decode_error_is_request_exception := False\<rparr>) fresh) \<noteq>
       Inl (SystemExit (ArgStr ''Error 502: Bad Gateway''))"
  by (simp add: fetch_eval)

subsection \<open>A body without data\<close>

text \<open>
  Claim C10. When the fetch succeeds (status 200, a JSON body, no \<open>error\<close> key) and the
  body has no \<open>data\<close> key, \<open>process\<close> raises \<open>KeyError('data')\<close>, which is
  not a \<open>SystemExit\<close>. The loop body does not catch it: after the sleep of the
  \<open>finally\<close> clause it leaves \<open>run_periodically\<close>, whatever passes would have
  followed. Nothing is printed about the error, and the one request is not repeated.
\<close>

theorem missing_data_escapes_loop:
  assumes "api_key w = Some k" and "k \<noteq> []" and "http_get w (request_url k) = Inr resp"
    and "resp_json resp = Some result" and "status_code resp = 200"
    and "b_error result = None" and "b_data result = None"
  shows "fst (fetch w s) = Inr result
         \<and> process result = Inl (Exception (KeyError ''data''))
         \<and> fst (main w s) = Inl (Exception (KeyError ''data''))
         \<and> fst (run_periodically i (w # ws) s) = Inl (Exception (KeyError ''data''))
         \<and> run_periodically i (w # ws) s = iteration i w s
         \<and> stdout (snd (run_periodically i (w # ws) s)) =
             stdout s @
             [''['' @ strftime_stamp (clock w (ticks s)) @ ''] Collecting news...'',
              ''['' @ strftime_stamp (clock w (Suc (ticks s))) @ ''] News collected, processing...'']
         \<and> requests (snd (run_periodically i (w # ws) s)) = requests s @ [request_url k]
         \<and> sleeps (snd (run_periodically i (w # ws) s)) = sleeps s @ [i]"
proof -
  let ?s1 = "print_stamped w ''News collected, processing...''
              ((print_stamped w ''Collecting news...'' s)
                 \<lparr>requests := requests s @ [request_url k]\<rparr>)"
  have f: "fetch w s = (Inr result, ?s1)"
    using fetch_success [OF assms(1-6)] .
  have p: "process result = Inl (Exception (KeyError ''data''))"
    using assms(7) by (simp add: process_def)
  have m: "main w s = (Inl (Exception (KeyError ''data'')), ?s1)"
    by (simp add: main_def f p)
  have it: "iteration i w s = (Inl (Exception (KeyError ''data'')), sleep i ?s1)"
    using iteration_escapes [OF m] .
  have lp: "run_periodically i (w # ws) s = iteration i w s"
    using run_periodically_stop [of i w s] it by simp
  have st: "snd (run_periodically i (w # ws) s) = sleep i ?s1"
    by (simp add: lp it)
  have c1: "fst (fetch w s) = Inr result" by (simp add: f)
  have c3: "fst (main w s) = Inl (Exception (KeyError ''data''))" by (simp add: m)
  have c4: "fst (run_periodically i (w # ws) s) = Inl (Exception (KeyError ''data''))"
    by (simp add: lp it)
  have out: "stdout (snd (run_periodically i (w # ws) s)) =
             stdout s @
             [''['' @ strftime_stamp (clock w (ticks s)) @ ''] Collecting news...'',
              ''['' @ strftime_stamp (clock w (Suc (ticks s))) @ ''] News collected, processing...'']"
    unfolding st by (simp add: stamped_def curr_time_def now_def)
  have rq: "requests (snd (run_periodically i (w # ws) s)) = requests s @ [request_url k]"
    unfolding st by simp
  have sl: "sleeps (snd (run_periodically i (w # ws) s)) = sleeps s @ [i]"
    unfolding st by simp
  show ?thesis
    by (intro conjI) (rule c1 p c3 c4 lp out rq sl)+
qed

theorem missing_data_escapes_loop_witness:
  "api_key no_data = Some ''s3cret'' \<and> ''s3cret'' \<noteq> []
   \<and> process \<lparr>b_error = None, b_data = None\<rparr> = Inl (Exception (KeyError ''data''))
   \<and> fst (run_periodically 60 [no_data, calm, calm] fresh) = Inl (Exception (KeyError ''data''))
   \<and> stdout (snd (run_periodically 60 [no_data, calm, calm] fresh)) =
       [''[2025-02-09 22:55:00] Collecting news...'',
        ''[2025-02-09 22:55:01] News collected, processing...'']
   \<and> requests (snd (run_periodically 60 [no_data, calm, calm] fresh)) =
       [''http://api.mediastack.com/v1/news?access_key=s3cret&languages=en&keywords=ai&sort=published_desc&limit=100'']
   \<and> sleeps (snd (run_periodically 60 [no_data, calm, calm] fresh)) = [60]"
proof -
  let ?resp = "\<lparr>status_code = 200, reason = ''OK'',
                resp_json = Some \<lparr>b_error = None, b_data = None\<rparr>\<rparr>"
  let ?result = "\<lparr>b_error = None, b_data = None\<rparr>"
  have k: "api_key no_data = Some ''s3cret''" by (simp add: no_data_def calm_def)
  have n: "''s3cret'' \<noteq> []" by simp
  have g: "http_get no_data (request_url ''s3cret'') = Inr ?resp" by (simp add: no_data_def)
  have j: "resp_json ?resp = Some ?result" by simp
  have c: "status_code ?resp = 200" by simp
  have e: "b_error ?result = None" by simp
  have d: "b_data ?result = None" by simp
  note T = missing_data_escapes_loop [OF k n g j c e d, of fresh 60 "[calm, calm]"]
  have p: "process ?result = Inl (Exception (KeyError ''data''))"
    using T [THEN conjunct2, THEN conjunct1] .
  have r: "fst (run_periodically 60 [no_data, calm, calm] fresh) = Inl (Exception (KeyError ''data''))"
    using T [THEN conjunct2, THEN conjunct2, THEN conjunct2, THEN conjunct1] .
  have ck: "clock no_data = demo_clock" by (simp add: no_data_def calm_def)
  have o: "stdout (snd (run_periodically 60 [no_data, calm, calm] fresh)) =
       [''[2025-02-09 22:55:00] Collecting news...'',
        ''[2025-02-09 22:55:01] News collected, processing...'']"
    using T [THEN conjunct2, THEN conjunct2, THEN conjunct2, THEN conjunct2, THEN conjunct2,
             THEN conjunct1]
    by (simp add: ck fresh_def demo_clock_def strftime_stamp_def zfill_def str_nat.simps digit_def)
  have q: "requests (snd (run_periodically 60 [no_data, calm, calm] fresh)) =
       [''http://api.mediastack.com/v1/news?access_key=s3cret&languages=en&keywords=ai&sort=published_desc&limit=100'']"
    using T [THEN conjunct2, THEN conjunct2, THEN conjunct2, THEN conjunct2, THEN conjunct2,
             THEN conjunct2, THEN conjunct1]
    by (simp add: fresh_def request_url_def BASE_URL_def num_articles_def str_nat.simps digit_def)
  have z: "sleeps (snd (run_periodically 60 [no_data, calm, calm] fresh)) = [60]"
    using T [THEN conjunct2, THEN conjunct2, THEN conjunct2, THEN conjunct2, THEN conjunct2,
             THEN conjunct2, THEN conjunct2]
    by (simp add: fresh_def)
  show ?thesis
    by (intro conjI) (rule k n p r o q z)+
qed

subsection \<open>The Persister\<close>

lemmas store_defs = store_def store_try_def store_except_def to_sql_def Let_def

text \<open>The statement \<open>store\<close> sends first; \<open>create_if_not_exists\<close> is what it does.\<close>

lemma create_db_query_text:
  "create_db_query =
     ''CREATE TABLE IF NOT EXISTS news (author TEXT, title TEXT, description TEXT, url TEXT, '' @
     ''source TEXT, image TEXT, category TEXT, language TEXT, country TEXT, published_at TEXT)''"
  by (simp add: create_db_query_def query_columns_def columns_def)

lemma create_if_not_exists_idem:
  "create_if_not_exists (create_if_not_exists t) = create_if_not_exists t"
  by (cases t) (simp_all add: create_if_not_exists_def)

lemma row_count_create:
  "news s' = create_if_not_exists (news s) \<Longrightarrow> row_count s' = row_count s"
  by (cases "news s") (simp_all add: row_count_def create_if_not_exists_def)

lemma row_count_appended:
  "news s' = map_option (\<lambda>t. t\<lparr>t_rows := t_rows t @ rs\<rparr>) (create_if_not_exists (news s)) \<Longrightarrow>
   row_count s' = row_count s + length rs"
  by (cases "news s") (simp_all add: row_count_def create_if_not_exists_def)

lemma commit_without_transaction: "txn s = None \<Longrightarrow> news (commit s) = news s"
  by (cases "news s") (simp_all add: commit_def)

lemma commit_inserted:
  "txn s = Some [] \<Longrightarrow>
   news (commit (insert_rows rs s)) = map_option (\<lambda>t. t\<lparr>t_rows := t_rows t @ rs\<rparr>) (news s)"
  by (simp add: commit_def insert_rows_def)

text \<open>What \<open>to_sql\<close> leaves in the table, from a transaction just begun.\<close>

lemma to_sql_news:
  assumes "txn s = Some []"
  shows "to_sql_fault w \<noteq> None \<Longrightarrow> news (snd (to_sql w df s)) = news s"
    and "to_sql_fault w = None \<Longrightarrow>
         news (snd (to_sql w df s)) = map_option (\<lambda>t. t\<lparr>t_rows := t_rows t @ df_rows df\<rparr>) (news s)"
  using assms by (auto simp: to_sql_def commit_inserted)

lemma store_except_fields:
  "news (snd (store_except w df e s)) = news s"
  "open_conns (snd (store_except w df e s)) = open_conns s"
  "requests (snd (store_except w df e s)) = requests s"
  by (simp_all add: store_except_def Let_def split: option.splits)

lemma store_except_recovers:
  assumes "rollback_fault w = None" and "to_csv_fault w = None"
  shows "fst (store_except w df e s) = Inr ()"
    and "files (snd (store_except w df e s)) = (files s)(csv_name (clock w (Suc (ticks s))) \<mapsto> df)"
    and "stdout (snd (store_except w df e s)) =
           stdout s @ [str_exc e,
             stamped w s ''Failed to save the news to the database, saving to CSV...'',
             ''['' @ strftime_stamp (clock w (Suc (Suc (ticks s)))) @ ''] News saved to CSV'']"
  using assms
  by (simp_all add: store_except_def Let_def now_def stamped_def curr_time_def)

lemma store_except_files_cases:
  "files (snd (store_except w df e s)) = files s
   \<or> (rollback_fault w = None \<and> to_csv_fault w = None
      \<and> files (snd (store_except w df e s)) = (files s)(csv_name (clock w (Suc (ticks s))) \<mapsto> df))"
  by (simp add: store_except_def Let_def now_def split: option.splits)

lemma store_try_fields:
  "open_conns (snd (store_try w df s)) = open_conns s"
  "requests (snd (store_try w df s)) = requests s"
  using store_try_cases [of w df s] by (auto simp: store_except_fields)

lemma store_try_failure:
  assumes "to_sql_fault w \<noteq> None \<or> commit_fault w \<noteq> None"
  shows "\<exists>e. store_try w df s = store_except w df e (snd (to_sql w df s))"
proof (cases "to_sql_fault w")
  case None
  with assms obtain m where "commit_fault w = Some m" by auto
  with None show ?thesis by (auto simp: store_try_def to_sql_cases)
next
  case (Some p)
  then obtain k m where "to_sql_fault w = Some (k, m)" by (cases p) simp
  then show ?thesis by (auto simp: store_try_def to_sql_cases)
qed

lemma store_try_success:
  assumes "to_sql_fault w = None" and "commit_fault w = None"
  shows "store_try w df s =
           (Inr (), print_stamped w ''News saved successfully'' (commit (snd (to_sql w df s))))"
  using assms by (simp add: store_try_def to_sql_cases)

text \<open>Once the three statements before the \<open>try\<close> have passed, \<open>store\<close> is the \<open>try\<close> statement followed by \<open>close\<close>.\<close>

lemma store_begun:
  assumes "connect_fault w = None" and "create_fault w = None" and "begin_fault w = None"
  shows "store w df s =
           (fst (store_try w df (begun w s)), close (snd (store_try w df (begun w s))))"
  using assms by (simp add: store_def Let_def begun_def split: prod.splits)

lemma begun_sel [simp]:
  "requests (begun w s) = requests s"
  "ticks (begun w s) = Suc (ticks s)"
  "news (begun w s) = create_if_not_exists (news s)"
  "open_conns (begun w s) = Suc (open_conns s)"
  "txn (begun w s) = Some []"
  "files (begun w s) = files s"
  "stdout (begun w s) = stdout s @ [stamped w s ''Saving into the database...'']"
  by (simp_all add: begun_def stamped_def curr_time_def now_def)

lemma store_before_try_files:
  "connect_fault w \<noteq> None \<or> create_fault w \<noteq> None \<or> begin_fault w \<noteq> None \<Longrightarrow>
   files (snd (store w df s)) = files s"
  by (auto simp: store_def Let_def split: option.splits)

text \<open>
  Claim C1, as the code has it. Let \<open>store\<close> reach the append: the connection opens, the
  table is created, the transaction begins. The append and its commit are both inside
  \<open>to_sql\<close>. When \<open>to_sql\<close> raises, it has rolled back: after the call the committed
  table is the one from before the call (created empty if it did not exist), so the row
  count is the one from before. The \<open>conn.commit()\<close> of \<open>store\<close> itself comes after
  \<open>to_sql\<close> has committed; were it to raise, the handler's rollback would find nothing
  to undo, and the table keeps the batch's rows. In both cases no transaction is left, and
  if the rollback and the write of the backup file do not raise, the whole batch,
  unmodified, is the content of the backup file, and \<open>store\<close> returns normally, its last
  line being \<open>News saved to CSV\<close>.
\<close>

theorem store_failure_rolls_back_and_backs_up:
  assumes "connect_fault w = None" and "create_fault w = None" and "begin_fault w = None"
    and "to_sql_fault w \<noteq> None \<or> commit_fault w \<noteq> None"
  shows "(to_sql_fault w \<noteq> None \<longrightarrow>
            news (snd (store w df s)) = create_if_not_exists (news s)
          \<and> row_count (snd (store w df s)) = row_count s)
         \<and> (to_sql_fault w = None \<longrightarrow>
              news (snd (store w df s)) =
                map_option (\<lambda>t. t\<lparr>t_rows := t_rows t @ df_rows df\<rparr>) (create_if_not_exists (news s))
            \<and> row_count (snd (store w df s)) = row_count s + length (df_rows df))
         \<and> txn (snd (store w df s)) = None
         \<and> (rollback_fault w = None \<and> to_csv_fault w = None \<longrightarrow>
               fst (store w df s) = Inr ()
             \<and> files (snd (store w df s)) = (files s)(csv_name (clock w (ticks s + 2)) \<mapsto> df)
             \<and> last (stdout (snd (store w df s))) =
                 ''['' @ strftime_stamp (clock w (ticks s + 3)) @ ''] News saved to CSV'')"
proof -
  let ?b = "begun w s"
  note st = store_begun [OF assms(1-3), of df s]
  from store_try_failure [OF assms(4), of df ?b] obtain e where
    tr: "store_try w df ?b = store_except w df e (snd (to_sql w df ?b))"
    by blast
  have nw: "news (snd (store w df s)) = news (snd (to_sql w df ?b))"
    by (simp add: st tr store_except_fields)
  have a: "news (snd (store w df s)) = create_if_not_exists (news s)
          \<and> row_count (snd (store w df s)) = row_count s"
    if f: "to_sql_fault w \<noteq> None"
  proof -
    have "news (snd (store w df s)) = create_if_not_exists (news s)"
      using to_sql_news(1) [of ?b w df] f by (simp add: nw)
    then show ?thesis using row_count_create by blast
  qed
  have b: "news (snd (store w df s)) =
                map_option (\<lambda>t. t\<lparr>t_rows := t_rows t @ df_rows df\<rparr>) (create_if_not_exists (news s))
            \<and> row_count (snd (store w df s)) = row_count s + length (df_rows df)"
    if f: "to_sql_fault w = None"
  proof -
    have "news (snd (store w df s)) =
            map_option (\<lambda>t. t\<lparr>t_rows := t_rows t @ df_rows df\<rparr>) (create_if_not_exists (news s))"
      using to_sql_news(2) [of ?b w df] f by (simp add: nw)
    then show ?thesis using row_count_appended by blast
  qed
  have tx: "txn (snd (store w df s)) = None"
    by (simp add: st)
  have bk: "fst (store w df s) = Inr ()
             \<and> files (snd (store w df s)) = (files s)(csv_name (clock w (ticks s + 2)) \<mapsto> df)
             \<and> last (stdout (snd (store w df s))) =
                 ''['' @ strftime_stamp (clock w (ticks s + 3)) @ ''] News saved to CSV''"
    if ok: "rollback_fault w = None \<and> to_csv_fault w = None"
  proof -
    from ok have r: "rollback_fault w = None" and c: "to_csv_fault w = None" by simp_all
    note ex = store_except_recovers [OF r c, of df e "snd (to_sql w df ?b)"]
    show ?thesis
      by (simp add: st tr ex numeral_3_eq_3)
  qed
  from a b tx bk show ?thesis by blast
qed

theorem store_failure_rolls_back_and_backs_up_witness:
  "row_count stocked = 2
   \<and> to_sql_fault (calm\<lparr>to_sql_fault := Some (1, ''database or disk is full'')\<rparr>) \<noteq> None
   \<and> row_count (snd (store (calm\<lparr>to_sql_fault := Some (1, ''database or disk is full'')\<rparr>)
                         demo_df stocked)) = 2
   \<and> txn (snd (store (calm\<lparr>to_sql_fault := Some (1, ''database or disk is full'')\<rparr>)
                   demo_df stocked)) = None
   \<and> fst (store (calm\<lparr>to_sql_fault := Some (1, ''database or disk is full'')\<rparr>)
             demo_df stocked) = Inr ()
   \<and> files (snd (store (calm\<lparr>to_sql_fault := Some (1, ''database or disk is full'')\<rparr>)
                     demo_df stocked)) ''news_2025_02_09.csv'' = Some demo_df
   \<and> last (stdout (snd (store (calm\<lparr>to_sql_fault := Some (1, ''database or disk is full'')\<rparr>)
                            demo_df stocked))) = ''[2025-02-09 22:55:03] News saved to CSV''
   \<and> to_sql_fault (calm\<lparr>commit_fault := Some ''disk I/O error''\<rparr>) = None
   \<and> commit_fault (calm\<lparr>commit_fault := Some ''disk I/O error''\<rparr>) \<noteq> None
   \<and> row_count (snd (store (calm\<lparr>commit_fault := Some ''disk I/O error''\<rparr>) demo_df stocked)) = 4
   \<and> files (snd (store (calm\<lparr>commit_fault := Some ''disk I/O error''\<rparr>) demo_df stocked))
         ''news_2025_02_09.csv'' = Some demo_df"
proof -
  let ?w = "calm\<lparr>to_sql_fault := Some (1, ''database or disk is full'')\<rparr>"
  let ?v = "calm\<lparr>commit_fault := Some ''disk I/O error''\<rparr>"
  have h1: "connect_fault ?w = None" and h2: "create_fault ?w = None"
    and h3: "begin_fault ?w = None"
    and h5: "rollback_fault ?w = None \<and> to_csv_fault ?w = None"
    by (simp_all add: calm_def)
  have h4: "to_sql_fault ?w \<noteq> None \<or> commit_fault ?w \<noteq> None" by simp
  have h6: "to_sql_fault ?w \<noteq> None" by simp
  have g1: "connect_fault ?v = None" and g2: "create_fault ?v = None"
    and g3: "begin_fault ?v = None"
    and g5: "rollback_fault ?v = None \<and> to_csv_fault ?v = None"
    and g6: "to_sql_fault ?v = None"
    by (simp_all add: calm_def)
  have g4: "to_sql_fault ?v \<noteq> None \<or> commit_fault ?v \<noteq> None" by simp
  have g7: "commit_fault ?v \<noteq> None" by simp
  note T = store_failure_rolls_back_and_backs_up [OF h1 h2 h3 h4, of demo_df stocked]
  note U = store_failure_rolls_back_and_backs_up [OF g1 g2 g3 g4, of demo_df stocked]
  have ck: "clock calm = demo_clock" by (simp add: calm_def)
  have tk: "ticks stocked = 0" by (simp add: stocked_def fresh_def)
  have nm: "csv_name (demo_clock n) = ''news_2025_02_09.csv''" for n
    by (simp add: csv_name_def strftime_date_def demo_clock_def zfill_def str_nat.simps digit_def)
  have tm: "strftime_stamp (demo_clock 3) = ''2025-02-09 22:55:03''"
    by (simp add: strftime_stamp_def demo_clock_def zfill_def str_nat.simps digit_def)
  have tm': "strftime_stamp (demo_clock (Suc (Suc (Suc 0)))) = ''2025-02-09 22:55:03''"
    using tm by (simp add: numeral_3_eq_3)
  have ln: "length (df_rows demo_df) = 2"
    by (simp add: demo_df_def from_records_def demo_records_def)
  have r0: "row_count stocked = 2"
    by (simp add: row_count_def stocked_def fresh_def ln)
  have r1: "row_count (snd (store ?w demo_df stocked)) = 2"
    using T [THEN conjunct1, rule_format, OF h6, THEN conjunct2] r0 by simp
  have t1: "txn (snd (store ?w demo_df stocked)) = None"
    using T [THEN conjunct2, THEN conjunct2, THEN conjunct1] .
  note B = T [THEN conjunct2, THEN conjunct2, THEN conjunct2, rule_format, OF h5]
  have b1: "fst (store ?w demo_df stocked) = Inr ()"
    using B [THEN conjunct1] .
  have b2: "files (snd (store ?w demo_df stocked)) ''news_2025_02_09.csv'' = Some demo_df"
    using B [THEN conjunct2, THEN conjunct1]
    by (simp add: ck tk nm)
  have b3: "last (stdout (snd (store ?w demo_df stocked))) = ''[2025-02-09 22:55:03] News saved to CSV''"
    using B [THEN conjunct2, THEN conjunct2]
    by (simp add: ck tk tm tm')
  have c1: "row_count (snd (store ?v demo_df stocked)) = 4"
    using U [THEN conjunct2, THEN conjunct1, rule_format, OF g6, THEN conjunct2] r0 ln by simp
  note C = U [THEN conjunct2, THEN conjunct2, THEN conjunct2, rule_format, OF g5]
  have c2: "files (snd (store ?v demo_df stocked)) ''news_2025_02_09.csv'' = Some demo_df"
    using C [THEN conjunct2, THEN conjunct1]
    by (simp add: ck tk nm)
  show ?thesis
    by (intro conjI) (rule r0 h6 r1 t1 b1 b2 b3 g6 g7 c1 c2)+
qed

lemmas store_eval =
  store_defs insert_rows_def commit_def rollback_def close_def create_if_not_exists_def
  print_stamped_def print_def tick_def stamped_def curr_time_def now_def strftime_stamp_def
  strftime_date_def csv_name_def zfill_def str_nat.simps digit_def
  calm_def fresh_def stocked_def demo_clock_def

text \<open>
  Claim C1 as stated promises the backup file and a normal return whenever the append or the
  commit fails. The handler has no guard of its own: when the disk is full, the append fails
  and so does \<open>to_csv\<close>; its error leaves \<open>store\<close>, and there is no backup file.
\<close>

theorem store_backup_write_fails_counterexample:
  "to_sql_fault (calm\<lparr>to_sql_fault := Some (1, ''database or disk is full''),
                       to_csv_fault := Some ''No space left on device''\<rparr>) \<noteq> None
   \<and> fst (store (calm\<lparr>to_sql_fault := Some (1, ''database or disk is full''),
                        to_csv_fault := Some ''No space left on device''\<rparr>) demo_df stocked) =
       Inl (Exception (OSError ''No space left on device''))
   \<and> files (snd (store (calm\<lparr>to_sql_fault := Some (1, ''database or disk is full''),
                               to_csv_fault := Some ''No space left on device''\<rparr>) demo_df stocked))
         ''news_2025_02_09.csv'' = None
   \<and> \<not> (fst (store (calm\<lparr>to_sql_fault := Some (1, ''database or disk is full''),
                            to_csv_fault := Some ''No space left on device''\<rparr>) demo_df stocked) =
          Inr ()
        \<and> files (snd (store (calm\<lparr>to_sql_fault := Some (1, ''database or disk is full''),
                                    to_csv_fault := Some ''No space left on device''\<rparr>) demo_df stocked))
              ''news_2025_02_09.csv'' = Some demo_df)"
  by (simp add: store_eval)

text \<open>The only way \<open>store\<close> changes the files: a failed write, recovered without a fault.\<close>

lemma store_files_cases:
  "files (snd (store w df s)) = files s
   \<or> (connect_fault w = None \<and> create_fault w = None \<and> begin_fault w = None
      \<and> (to_sql_fault w \<noteq> None \<or> commit_fault w \<noteq> None)
      \<and> rollback_fault w = None \<and> to_csv_fault w = None
      \<and> files (snd (store w df s)) = (files s)(csv_name (clock w (ticks s + 2)) \<mapsto> df))"
proof (cases "connect_fault w = None \<and> create_fault w = None \<and> begin_fault w = None")
  case False
  then show ?thesis using store_before_try_files [of w df s] by blast
next
  case True
  then have c: "connect_fault w = None" and r: "create_fault w = None" and b: "begin_fault w = None"
    by simp_all
  note st = store_begun [OF c r b, of df s]
  show ?thesis
  proof (cases "to_sql_fault w = None \<and> commit_fault w = None")
    case True
    then show ?thesis
      using store_try_success [of w df "begun w s"] by (simp add: st)
  next
    case False
    then have f: "to_sql_fault w \<noteq> None \<or> commit_fault w \<noteq> None" by simp
    from store_try_failure [OF f, of df "begun w s"] obtain e where
      tr: "store_try w df (begun w s) = store_except w df e (snd (to_sql w df (begun w s)))"
      by blast
    from store_except_files_cases [of w df e "snd (to_sql w df (begun w s))"] c r b f
    show ?thesis by (auto simp: st tr)
  qed
qed

lemma store_success:
  assumes "connect_fault w = None" and "create_fault w = None" and "begin_fault w = None"
    and "to_sql_fault w = None" and "commit_fault w = None"
  shows "fst (store w df s) = Inr ()"
    and "news (snd (store w df s)) =
           map_option (\<lambda>t. t\<lparr>t_rows := t_rows t @ df_rows df\<rparr>) (create_if_not_exists (news s))"
    and "files (snd (store w df s)) = files s"
    and "open_conns (snd (store w df s)) = open_conns s"
  using store_begun [OF assms(1-3), of df s] store_try_success [OF assms(4,5), of df "begun w s"]
    to_sql_news(2) [of "begun w s" w df, OF _ assms(4)]
  by (simp_all add: commit_without_transaction)

text \<open>
  Claim C7, as the code has it. Without a fault of the append or the commit, \<open>store\<close>
  leaves the files as they are, on every path. When the append or the commit fails, and the
  rollback and the file write do not, the one file written is
  \<open>news_YYYY_MM_DD.csv\<close> for the date read from the clock at that moment (the third
  reading of the call), and its content is the batch; \<open>store\<close> never writes more than
  this one file, and never anything but the batch. The header of a batch that comes from
  \<open>process\<close> is the ten-column schema.
\<close>

theorem backup_file_written_only_after_failed_write:
  "(to_sql_fault w = None \<and> commit_fault w = None \<longrightarrow> files (snd (store w df s)) = files s)
   \<and> (connect_fault w = None \<and> create_fault w = None \<and> begin_fault w = None
      \<and> (to_sql_fault w \<noteq> None \<or> commit_fault w \<noteq> None)
      \<and> rollback_fault w = None \<and> to_csv_fault w = None \<longrightarrow>
        files (snd (store w df s)) =
          (files s)(''news_'' @ zfill 4 (str_nat (dt_year (clock w (ticks s + 2)))) @ ''_'' @
                    zfill 2 (str_nat (dt_month (clock w (ticks s + 2)))) @ ''_'' @
                    zfill 2 (str_nat (dt_day (clock w (ticks s + 2)))) @ ''.csv'' \<mapsto> df))
   \<and> (files (snd (store w df s)) = files s
      \<or> (\<exists>name. files (snd (store w df s)) = (files s)(name \<mapsto> df)))
   \<and> df_columns (from_records recs columns) = columns"
proof -
  have a: "to_sql_fault w = None \<and> commit_fault w = None \<longrightarrow> files (snd (store w df s)) = files s"
    using store_files_cases [of w df s] by blast
  have b: "connect_fault w = None \<and> create_fault w = None \<and> begin_fault w = None
      \<and> (to_sql_fault w \<noteq> None \<or> commit_fault w \<noteq> None)
      \<and> rollback_fault w = None \<and> to_csv_fault w = None \<longrightarrow>
        files (snd (store w df s)) =
          (files s)(''news_'' @ zfill 4 (str_nat (dt_year (clock w (ticks s + 2)))) @ ''_'' @
                    zfill 2 (str_nat (dt_month (clock w (ticks s + 2)))) @ ''_'' @
                    zfill 2 (str_nat (dt_day (clock w (ticks s + 2)))) @ ''.csv'' \<mapsto> df)"
  proof
    assume h: "connect_fault w = None \<and> create_fault w = None \<and> begin_fault w = None
      \<and> (to_sql_fault w \<noteq> None \<or> commit_fault w \<noteq> None)
      \<and> rollback_fault w = None \<and> to_csv_fault w = None"
    then have h1: "connect_fault w = None" and h2: "create_fault w = None"
      and h3: "begin_fault w = None" and h4: "to_sql_fault w \<noteq> None \<or> commit_fault w \<noteq> None"
      and h5: "rollback_fault w = None" and h6: "to_csv_fault w = None"
      by simp_all
    from store_try_failure [OF h4, of df "begun w s"] obtain e where
      tr: "store_try w df (begun w s) = store_except w df e (snd (to_sql w df (begun w s)))"
      by blast
    have "files (snd (store w df s)) = (files s)(csv_name (clock w (Suc (Suc (ticks s)))) \<mapsto> df)"
      using store_except_recovers(2) [OF h5 h6, of df e "snd (to_sql w df (begun w s))"]
      by (simp add: store_begun [OF h1 h2 h3] tr)
    then show "files (snd (store w df s)) =
          (files s)(''news_'' @ zfill 4 (str_nat (dt_year (clock w (ticks s + 2)))) @ ''_'' @
                    zfill 2 (str_nat (dt_month (clock w (ticks s + 2)))) @ ''_'' @
                    zfill 2 (str_nat (dt_day (clock w (ticks s + 2)))) @ ''.csv'' \<mapsto> df)"
      by (simp add: csv_name_def strftime_date_def)
  qed
  have c: "files (snd (store w df s)) = files s
      \<or> (\<exists>name. files (snd (store w df s)) = (files s)(name \<mapsto> df))"
    using store_files_cases [of w df s] by blast
  have d: "df_columns (from_records recs columns) = columns"
    by (simp add: from_records_def)
  from a b c d show ?thesis by (intro conjI)
qed


theorem backup_file_written_only_after_failed_write_witness:
  "to_sql_fault calm = None \<and> commit_fault calm = None
   \<and> files (snd (store calm demo_df fresh)) = files fresh
   \<and> commit_fault (calm\<lparr>commit_fault := Some ''disk I/O error''\<rparr>) \<noteq> None
   \<and> files (snd (store (calm\<lparr>commit_fault := Some ''disk I/O error''\<rparr>) demo_df fresh))
         ''news_2025_02_09.csv'' = Some demo_df
   \<and> df_columns (from_records demo_records columns) = columns"
proof -
  let ?w = "calm\<lparr>commit_fault := Some ''disk I/O error''\<rparr>"
  have g: "to_sql_fault calm = None \<and> commit_fault calm = None" by (simp add: calm_def)
  note A = backup_file_written_only_after_failed_write [of calm demo_df fresh demo_records]
  have a: "files (snd (store calm demo_df fresh)) = files fresh"
    using A [THEN conjunct1, rule_format, OF g] .
  have h: "connect_fault ?w = None \<and> create_fault ?w = None \<and> begin_fault ?w = None
      \<and> (to_sql_fault ?w \<noteq> None \<or> commit_fault ?w \<noteq> None)
      \<and> rollback_fault ?w = None \<and> to_csv_fault ?w = None"
    by (simp add: calm_def)
  have n: "commit_fault ?w \<noteq> None" by simp
  note B = backup_file_written_only_after_failed_write [of ?w demo_df fresh demo_records]
  have d: "dt_year (demo_clock k) = 2025" "dt_month (demo_clock k) = 2" "dt_day (demo_clock k) = 9"
    for k by (simp_all add: demo_clock_def)
  have y: "zfill 4 (str_nat 2025) = ''2025''" "zfill 2 (str_nat 2) = ''02''"
    "zfill 2 (str_nat 9) = ''09''"
    by (simp_all add: zfill_def str_nat.simps digit_def)
  have ck: "clock calm = demo_clock" by (simp add: calm_def)
  have b: "files (snd (store ?w demo_df fresh)) ''news_2025_02_09.csv'' = Some demo_df"
    using B [THEN conjunct2, THEN conjunct1, rule_format, OF h]
    by (simp add: ck d y)
  have c: "df_columns (from_records demo_records columns) = columns"
    using A [THEN conjunct2, THEN conjunct2, THEN conjunct2] .
  show ?thesis
    using g by (intro conjI) (simp, simp, rule a, rule n, rule b, rule c)
qed

text \<open>
  Claim C7 as stated has a backup file whenever the write to the table fails. In a directory
  that is read-only the append fails, then the file write fails, and no file is there.
\<close>

theorem backup_file_missing_after_failed_write_counterexample:
  "to_sql_fault (calm\<lparr>to_sql_fault := Some (0, ''attempt to write a readonly database''),
                       to_csv_fault := Some ''Permission denied''\<rparr>) \<noteq> None
   \<and> fst (store (calm\<lparr>to_sql_fault := Some (0, ''attempt to write a readonly database''),
                        to_csv_fault := Some ''Permission denied''\<rparr>) demo_df fresh) =
       Inl (Exception (OSError ''Permission denied''))
   \<and> files (snd (store (calm\<lparr>to_sql_fault := Some (0, ''attempt to write a readonly database''),
                               to_csv_fault := Some ''Permission denied''\<rparr>) demo_df fresh)) =
       files fresh"
  by (simp add: store_eval)

text \<open>What \<open>store\<close> does to the table and to the connection once it is connected.\<close>

lemma store_news_cases:
  assumes "connect_fault w = None" and "create_fault w = None"
  shows "news (snd (store w df s)) = create_if_not_exists (news s)
         \<or> news (snd (store w df s)) =
             map_option (\<lambda>t. t\<lparr>t_rows := t_rows t @ df_rows df\<rparr>) (create_if_not_exists (news s))"
proof (cases "begin_fault w")
  case (Some m)
  with assms show ?thesis by (simp add: store_def Let_def)
next
  case None
  note st = store_begun [OF assms None, of df s]
  show ?thesis
  proof (cases "to_sql_fault w = None \<and> commit_fault w = None")
    case True
    then show ?thesis using store_success(2) [OF assms None, of df s] by simp
  next
    case False
    then have f: "to_sql_fault w \<noteq> None \<or> commit_fault w \<noteq> None" by simp
    from store_try_failure [OF f, of df "begun w s"] obtain e where
      tr: "store_try w df (begun w s) = store_except w df e (snd (to_sql w df (begun w s)))"
      by blast
    have "news (snd (to_sql w df (begun w s))) = create_if_not_exists (news s)
        \<or> news (snd (to_sql w df (begun w s))) =
            map_option (\<lambda>t. t\<lparr>t_rows := t_rows t @ df_rows df\<rparr>) (create_if_not_exists (news s))"
      using to_sql_news [of "begun w s" w df] by (cases "to_sql_fault w = None") simp_all
    then show ?thesis by (simp add: st tr store_except_fields)
  qed
qed

lemma store_closes:
  assumes "connect_fault w = None" and "create_fault w = None" and "begin_fault w = None"
  shows "open_conns (snd (store w df s)) = open_conns s" and "txn (snd (store w df s)) = None"
  by (simp_all add: store_begun [OF assms] store_try_fields)

text \<open>
  Once the connection is open and the table statement has passed, the table exists after the
  call: created with its ten \<open>TEXT\<close> columns where it was absent, kept with its rows
  (and perhaps new ones appended) where it was not. Once the transaction has begun, the
  connection is closed on every way out of the \<open>try\<close> statement.
\<close>

lemma store_creates_table_and_closes_connection:
  assumes "connect_fault w = None" and "create_fault w = None"
  shows "(\<exists>t. news (snd (store w df s)) = Some t)
         \<and> (news s = None \<longrightarrow>
              (\<exists>rows. news (snd (store w df s)) =
                 Some \<lparr>schema = map (\<lambda>c. (c, ''TEXT'')) columns, t_rows = rows\<rparr>))
         \<and> (\<forall>t. news s = Some t \<longrightarrow>
              (\<exists>rows. news (snd (store w df s)) = Some (t\<lparr>t_rows := t_rows t @ rows\<rparr>)))
         \<and> length (map (\<lambda>c. (c, ''TEXT'')) columns) = 10
         \<and> create_if_not_exists (create_if_not_exists (news s)) = create_if_not_exists (news s)
         \<and> (begin_fault w = None \<longrightarrow>
              open_conns (snd (store w df s)) = open_conns s \<and> txn (snd (store w df s)) = None)"
proof -
  note nc = store_news_cases [OF assms, of df s]
  have a: "\<exists>t. news (snd (store w df s)) = Some t"
    using nc by (cases "news s") (auto simp: create_if_not_exists_def)
  have b: "news s = None \<longrightarrow>
              (\<exists>rows. news (snd (store w df s)) =
                 Some \<lparr>schema = map (\<lambda>c. (c, ''TEXT'')) columns, t_rows = rows\<rparr>)"
    using nc by (auto simp: create_if_not_exists_def)
  have c: "\<forall>t. news s = Some t \<longrightarrow>
              (\<exists>rows. news (snd (store w df s)) = Some (t\<lparr>t_rows := t_rows t @ rows\<rparr>))"
  proof (intro allI impI)
    fix t assume t: "news s = Some t"
    from nc t have "news (snd (store w df s)) = Some (t\<lparr>t_rows := t_rows t @ []\<rparr>)
        \<or> news (snd (store w df s)) = Some (t\<lparr>t_rows := t_rows t @ df_rows df\<rparr>)"
      by (simp add: create_if_not_exists_def)
    then show "\<exists>rows. news (snd (store w df s)) = Some (t\<lparr>t_rows := t_rows t @ rows\<rparr>)"
      by blast
  qed
  have d: "length (map (\<lambda>c. (c, ''TEXT'')) columns) = 10"
    by (simp add: columns_def)
  have e: "create_if_not_exists (create_if_not_exists (news s)) = create_if_not_exists (news s)"
    by (rule create_if_not_exists_idem)
  have f: "begin_fault w = None \<longrightarrow>
              open_conns (snd (store w df s)) = open_conns s \<and> txn (snd (store w df s)) = None"
    using store_closes [OF assms, of df s] by simp
  from a b c d e f show ?thesis by (intro conjI)
qed

lemma store_creates_table_and_closes_connection_example:
  "connect_fault (calm\<lparr>to_sql_fault := Some (0, ''attempt to write a readonly database''),
                        to_csv_fault := Some ''Permission denied''\<rparr>) = None
   \<and> news fresh = None
   \<and> news (snd (store (calm\<lparr>to_sql_fault := Some (0, ''attempt to write a readonly database''),
                              to_csv_fault := Some ''Permission denied''\<rparr>) demo_df fresh)) =
       Some \<lparr>schema = map (\<lambda>c. (c, ''TEXT'')) columns, t_rows = []\<rparr>
   \<and> open_conns (snd (store (calm\<lparr>to_sql_fault := Some (0, ''attempt to write a readonly database''),
                                    to_csv_fault := Some ''Permission denied''\<rparr>) demo_df fresh)) =
       open_conns fresh
   \<and> news (snd (store calm demo_df stocked)) =
       Some \<lparr>schema = map (\<lambda>c. (c, ''TEXT'')) columns, t_rows = df_rows demo_df @ df_rows demo_df\<rparr>
   \<and> open_conns (snd (store calm demo_df stocked)) = open_conns stocked"
proof -
  let ?w = "calm\<lparr>to_sql_fault := Some (0, ''attempt to write a readonly database''),
                 to_csv_fault := Some ''Permission denied''\<rparr>"
  have h1: "connect_fault ?w = None" and h2: "create_fault ?w = None" and h3: "begin_fault ?w = None"
    by (simp_all add: calm_def)
  have g1: "connect_fault calm = None" and g2: "create_fault calm = None"
    and g3: "begin_fault calm = None"
    by (simp_all add: calm_def)
  note A = store_creates_table_and_closes_connection [OF h1 h2, of demo_df fresh]
  note B = store_creates_table_and_closes_connection [OF g1 g2, of demo_df stocked]
  have n: "news fresh = None" by (simp add: fresh_def)
  have a1: "news (snd (store ?w demo_df fresh)) =
       Some \<lparr>schema = map (\<lambda>c. (c, ''TEXT'')) columns, t_rows = []\<rparr>"
    by (simp add: store_eval)
  have a2: "open_conns (snd (store ?w demo_df fresh)) = open_conns fresh"
    using A [THEN conjunct2, THEN conjunct2, THEN conjunct2, THEN conjunct2, THEN conjunct2,
             rule_format, OF h3] by simp
  have b1: "news (snd (store calm demo_df stocked)) =
       Some \<lparr>schema = map (\<lambda>c. (c, ''TEXT'')) columns, t_rows = df_rows demo_df @ df_rows demo_df\<rparr>"
    by (simp add: store_eval)
  have b2: "open_conns (snd (store calm demo_df stocked)) = open_conns stocked"
    using B [THEN conjunct2, THEN conjunct2, THEN conjunct2, THEN conjunct2, THEN conjunct2,
             rule_format, OF g3] by simp
  show ?thesis
    by (intro conjI) (rule h1 n a1 a2 b1 b2)+
qed

text \<open>
  Claim C8 says that the connection is released on every exit path of \<open>store\<close> and
  that the table exists after every call. The \<open>finally\<close> clause that closes the
  connection belongs to the \<open>try\<close> statement, and the statements that create the table
  and begin the transaction stand before it: when \<open>news.db\<close> is not a database file,
  or is locked by another process, the first of them raises, the connection opened by
  \<open>store\<close> stays open and there is no table; were \<open>BEGIN\<close> to raise, the
  connection would stay open as well.
\<close>

theorem store_leaks_connection_when_setup_fails:
  "open_conns fresh = 0
   \<and> fst (store (calm\<lparr>create_fault := Some ''file is not a database''\<rparr>) demo_df fresh) =
       Inl (Exception (DatabaseError ''file is not a database''))
   \<and> open_conns (snd (store (calm\<lparr>create_fault := Some ''file is not a database''\<rparr>) demo_df fresh)) = 1
   \<and> news (snd (store (calm\<lparr>create_fault := Some ''file is not a database''\<rparr>) demo_df fresh)) = None
   \<and> fst (store (calm\<lparr>begin_fault := Some ''database is locked''\<rparr>) demo_df fresh) =
       Inl (Exception (DatabaseError ''database is locked''))
   \<and> open_conns (snd (store (calm\<lparr>begin_fault := Some ''database is locked''\<rparr>) demo_df fresh)) = 1"
  by (simp add: store_eval)

subsection \<open>The Scheduler\<close>

text \<open>In each of the four worlds of \<open>fetcher_error\<close>, \<open>fetch\<close> raises that \<open>SystemExit\<close>.\<close>

lemma fetch_fetcher_error:
  assumes "fetcher_error w = Some a"
  shows "fst (fetch w s) = Inl (SystemExit a)"
proof (cases "api_key w")
  case None
  with assms show ?thesis by (simp add: fetcher_error_def fetch_def no_api_key_def)
next
  case (Some k)
  show ?thesis
  proof (cases "k = []")
    case True
    with Some assms show ?thesis by (simp add: fetcher_error_def fetch_def no_api_key_def)
  next
    case False
    show ?thesis
    proof (cases "http_get w (request_url k)")
      case (Inl m)
      with Some False assms have "a = ArgExc (RequestException m)"
        by (simp add: fetcher_error_def)
      with fetch_transport_error [OF Some False Inl] show ?thesis by simp
    next
      case (Inr resp)
      with Some False assms obtain result where j: "resp_json resp = Some result"
        by (cases "resp_json resp") (simp_all add: fetcher_error_def)
      show ?thesis
      proof (cases "status_code resp = 200")
        case False
        with Some \<open>k \<noteq> []\<close> Inr j assms
        have "a = ArgStr (''Error '' @ str_nat (status_code resp) @ '': '' @ reason resp)"
          by (simp add: fetcher_error_def)
        with fetch_protocol_error [OF Some \<open>k \<noteq> []\<close> Inr j False] show ?thesis by simp
      next
        case True
        with Some \<open>k \<noteq> []\<close> Inr j assms obtain err where e: "b_error result = Some err"
          by (cases "b_error result") (simp_all add: fetcher_error_def)
        with Some \<open>k \<noteq> []\<close> Inr j True assms obtain m where
          m: "subscript err ''message'' = Inr m" and a: "a = ArgJson err"
          by (cases "subscript err ''message''") (simp_all add: fetcher_error_def)
        with fetch_application_error [OF Some \<open>k \<noteq> []\<close> Inr j True e m] show ?thesis by simp
      qed
    qed
  qed
qed

text \<open>
  Conversely, a \<open>SystemExit\<close> that \<open>fetch\<close> raises is one of the four, or the
  decoding error of a body that is not JSON.
\<close>

lemma fetcher_error_complete:
  assumes "fst (fetch w s) = Inl (SystemExit a)"
  shows "fetcher_error w = Some a
         \<or> (decode_error_is_request_exception w \<and> a = ArgExc (JSONDecodeError (decode_error w)))"
  using assms
  by (auto simp: fetcher_error_def fetch_def no_api_key_def send_request_def check_response_def
        Let_def split: option.splits sum.splits if_splits)

text \<open>Every pass that is run sleeps the interval once; a loop that is still running has run every pass.\<close>

lemma run_periodically_sleeps:
  "\<exists>n\<le>length ws. sleeps (snd (run_periodically i ws s)) = sleeps s @ replicate n i
     \<and> (fst (run_periodically i ws s) = Inr () \<longrightarrow> n = length ws)"
proof (induction ws arbitrary: s)
  case Nil
  show ?case by simp
next
  case (Cons w ws)
  obtain r s1 where it: "iteration i w s = (r, s1)" by (cases "iteration i w s")
  with iteration_sleeps [of i w s] have s1: "sleeps s1 = sleeps s @ [i]" by simp
  show ?case
  proof (cases r)
    case (Inl e)
    with it s1 have "sleeps (snd (run_periodically i (w # ws) s)) = sleeps s @ replicate 1 i
        \<and> fst (run_periodically i (w # ws) s) \<noteq> Inr ()"
      by simp
    then show ?thesis by (intro exI [of _ 1]) simp
  next
    case (Inr u)
    from Cons.IH [of s1] obtain n where n: "n \<le> length ws"
      and sl: "sleeps (snd (run_periodically i ws s1)) = sleeps s1 @ replicate n i"
      and fin: "fst (run_periodically i ws s1) = Inr () \<longrightarrow> n = length ws"
      by blast
    from it Inr have step: "run_periodically i (w # ws) s = run_periodically i ws s1" by simp
    have A: "sleeps (snd (run_periodically i (w # ws) s)) = sleeps s @ replicate (Suc n) i"
      unfolding step by (simp add: sl s1 replicate_app_Cons_same)
    have B: "fst (run_periodically i (w # ws) s) = Inr () \<longrightarrow> Suc n = length (w # ws)"
      unfolding step using fin by simp
    have C: "Suc n \<le> length (w # ws)" using n by simp
    from A B C show ?thesis by blast
  qed
qed

text \<open>
  Claim C5, as the code has it. The loop catches \<open>SystemExit\<close> and nothing else. In a
  world where the key is missing, the request fails, a JSON body comes with a status other
  than 200, or a JSON body comes with status 200 and an \<open>error\<close> object that has a
  \<open>message\<close>, \<open>fetch\<close> raises a \<open>SystemExit\<close>; the loop then prints one line with
  the time and the error's text, sleeps the interval, and goes on with the next pass. A loop
  given only such worlds is still running after the last of them and has slept once per
  pass. In any world whatever, a pass sleeps the interval exactly once, however the run
  ended.
\<close>

theorem scheduler_catches_fetcher_errors:
  assumes "fetcher_error w = Some a" and "\<forall>v\<in>set ws. fetcher_error v \<noteq> None"
  shows "fst (fetch w s) = Inl (SystemExit a)
         \<and> run_periodically i [w] s =
             (Inr (),
              sleep i (print_stamped w (''Error: '' @ [CHR 0x22] @ str_arg w a @ [CHR 0x22] @
                                        ''. Repeating in '' @ str_nat i @ '' seconds'')
                         (snd (fetch w s))))
         \<and> stdout (snd (run_periodically i [w] s)) =
             stdout (snd (fetch w s)) @
             [''['' @ curr_time w (snd (fetch w s)) @ ''] Error: '' @ [CHR 0x22] @ str_arg w a @
              [CHR 0x22] @ ''. Repeating in '' @ str_nat i @ '' seconds'']
         \<and> run_periodically i (w # ws) s =
             run_periodically i ws
               (sleep i (print_stamped w (''Error: '' @ [CHR 0x22] @ str_arg w a @ [CHR 0x22] @
                                          ''. Repeating in '' @ str_nat i @ '' seconds'')
                           (snd (fetch w s))))
         \<and> fst (run_periodically i (w # ws) s) = Inr ()
         \<and> sleeps (snd (run_periodically i (w # ws) s)) = sleeps s @ replicate (Suc (length ws)) i
         \<and> sleeps (snd (run_periodically i [w'] s')) = sleeps s' @ [i]
         \<and> (\<exists>n\<le>length ws'. sleeps (snd (run_periodically i ws' s')) = sleeps s' @ replicate n i
               \<and> (fst (run_periodically i ws' s') = Inr () \<longrightarrow> n = length ws'))"
proof -
  let ?s1 = "sleep i (print_stamped w (''Error: '' @ [CHR 0x22] @ str_arg w a @ [CHR 0x22] @
                                        ''. Repeating in '' @ str_nat i @ '' seconds'')
                         (snd (fetch w s)))"
  have f: "fst (fetch w s) = Inl (SystemExit a)"
    using fetch_fetcher_error [OF assms(1)] .
  from main_fetch_raises [OF f] have m: "main w s = (Inl (SystemExit a), snd (fetch w s))" .
  have it: "iteration i w s = (Inr (), ?s1)"
    using iteration_catches [OF m] .
  have one: "run_periodically i [w] s = (Inr (), ?s1)"
    by (simp add: it)
  have out: "stdout (snd (run_periodically i [w] s)) =
             stdout (snd (fetch w s)) @
             [''['' @ curr_time w (snd (fetch w s)) @ ''] Error: '' @ [CHR 0x22] @ str_arg w a @
              [CHR 0x22] @ ''. Repeating in '' @ str_nat i @ '' seconds'']"
    unfolding one by (simp add: stamped_def)
  have step: "run_periodically i (w # ws) s = run_periodically i ws ?s1"
    by (simp add: it)
  have noexc: "fst (main v t) \<noteq> Inl (Exception e)" if "v \<in> set (w # ws)" for v t e
  proof -
    from that assms obtain b where "fetcher_error v = Some b" by auto
    from main_fetch_raises [OF fetch_fetcher_error [OF this], of t] show ?thesis by simp
  qed
  from run_periodically_keeps_running [of "w # ws" i s] noexc
  have run: "fst (run_periodically i (w # ws) s) = Inr ()"
    and sl: "sleeps (snd (run_periodically i (w # ws) s)) = sleeps s @ replicate (Suc (length ws)) i"
    by simp_all
  have any: "sleeps (snd (run_periodically i [w'] s')) = sleeps s' @ [i]"
    using iteration_sleeps [of i w' s'] by (cases "iteration i w' s'"; cases "fst (iteration i w' s')") auto
  note all = run_periodically_sleeps [of ws' i s']
  show ?thesis
    by (intro conjI) (rule f one out step run sl any all)+
qed

lemmas pass_eval = fetch_eval main_def iteration_def sleep_def

text \<open>One world for each of the four errors.\<close>

lemma fetcher_error_examples:
  "fetcher_error (calm\<lparr>api_key := None\<rparr>) = Some (ArgStr ''Missing API Key'')"
  "fetcher_error refused = Some (ArgExc (RequestException ''Connection refused''))"
  "fetcher_error throttled = Some (ArgStr ''Error 429: Too Many Requests'')"
  "fetcher_error invalid_key =
     Some (ArgJson (JDict [(''code'', JStr ''invalid_access_key''),
                           (''message'', JStr ''Invalid access key'')]))"
  by (simp_all add: fetcher_error_def fetch_eval)

theorem scheduler_catches_fetcher_errors_witness:
  "fetcher_error (calm\<lparr>api_key := None\<rparr>) = Some (ArgStr ''Missing API Key'')
   \<and> fetcher_error refused = Some (ArgExc (RequestException ''Connection refused''))
   \<and> fetcher_error throttled = Some (ArgStr ''Error 429: Too Many Requests'')
   \<and> fetcher_error invalid_key =
       Some (ArgJson (JDict [(''code'', JStr ''invalid_access_key''),
                             (''message'', JStr ''Invalid access key'')]))
   \<and> fst (run_periodically 86400 [calm\<lparr>api_key := None\<rparr>, refused, throttled, invalid_key]
            fresh) = Inr ()
   \<and> sleeps (snd (run_periodically 86400
                    [calm\<lparr>api_key := None\<rparr>, refused, throttled, invalid_key] fresh)) =
       [86400, 86400, 86400, 86400]
   \<and> stdout (snd (run_periodically 86400 [calm\<lparr>api_key := None\<rparr>] fresh)) =
       [''[2025-02-09 22:55:00] Error: API Key not found! Check your .env file.'',
        ''[2025-02-09 22:55:01] Error: '' @ [CHR 0x22] @ ''Missing API Key'' @ [CHR 0x22] @
          ''. Repeating in 86400 seconds'']
   \<and> stdout (snd (run_periodically 86400 [refused] fresh)) =
       [''[2025-02-09 22:55:00] Collecting news...'',
        ''[2025-02-09 22:55:01] API request failed: connection error'',
        ''[2025-02-09 22:55:02] Error: '' @ [CHR 0x22] @ ''Connection refused'' @ [CHR 0x22] @
          ''. Repeating in 86400 seconds'']
   \<and> stdout (snd (run_periodically 86400 [throttled] fresh)) =
       [''[2025-02-09 22:55:00] Collecting news...'',
        ''[2025-02-09 22:55:01] API request failed: HTTP error'',
        ''[2025-02-09 22:55:02] Error: '' @ [CHR 0x22] @ ''Error 429: Too Many Requests'' @
          [CHR 0x22] @ ''. Repeating in 86400 seconds'']
   \<and> stdout (snd (run_periodically 86400 [invalid_key] fresh)) =
       [''[2025-02-09 22:55:00] Collecting news...'',
        ''[2025-02-09 22:55:01] API request failed: Invalid access key'',
        ''[2025-02-09 22:55:02] Error: '' @ [CHR 0x22] @ ''<json>'' @ [CHR 0x22] @
          ''. Repeating in 86400 seconds'']
   \<and> sleeps (snd (run_periodically 86400 [calm] fresh)) = [86400]
   \<and> sleeps (snd (run_periodically 86400
                    [calm\<lparr>to_sql_fault := Some (1, ''database or disk is full'')\<rparr>] fresh)) =
       [86400]"
proof -
  let ?k = "calm\<lparr>api_key := None\<rparr>"
  let ?b = "calm\<lparr>to_sql_fault := Some (1, ''database or disk is full'')\<rparr>"
  note e = fetcher_error_examples
  have hs: "\<forall>v\<in>set [refused, throttled, invalid_key]. fetcher_error v \<noteq> None"
    by (simp add: e)
  have h0: "\<forall>v\<in>set ([] :: world list). fetcher_error v \<noteq> None" by simp
  have z: "sleeps fresh = []" by (simp add: fresh_def)
  note K = scheduler_catches_fetcher_errors [OF e(1) hs, where s = fresh and i = 86400
      and w' = calm and s' = fresh and ws' = "[?k, refused, throttled, invalid_key]"]
  note K1 = scheduler_catches_fetcher_errors [OF e(1) h0, where s = fresh and i = 86400
      and w' = ?b and s' = fresh and ws' = "[]"]
  note R = scheduler_catches_fetcher_errors [OF e(2) h0, where s = fresh and i = 86400
      and w' = calm and s' = fresh and ws' = "[]"]
  note T = scheduler_catches_fetcher_errors [OF e(3) h0, where s = fresh and i = 86400
      and w' = calm and s' = fresh and ws' = "[]"]
  note I = scheduler_catches_fetcher_errors [OF e(4) h0, where s = fresh and i = 86400
      and w' = calm and s' = fresh and ws' = "[]"]
  have run: "fst (run_periodically 86400 [?k, refused, throttled, invalid_key] fresh) = Inr ()"
    using K [THEN conjunct2, THEN conjunct2, THEN conjunct2, THEN conjunct2, THEN conjunct1] .
  from K [THEN conjunct2, THEN conjunct2, THEN conjunct2, THEN conjunct2, THEN conjunct2,
          THEN conjunct2, THEN conjunct2]
  obtain n where
    sn: "sleeps (snd (run_periodically 86400 [?k, refused, throttled, invalid_key] fresh)) =
           sleeps fresh @ replicate n 86400"
    and fin: "fst (run_periodically 86400 [?k, refused, throttled, invalid_key] fresh) = Inr ()
           \<longrightarrow> n = length [?k, refused, throttled, invalid_key]"
    by blast
  from fin run have n4: "n = 4" by simp
  have r4: "replicate 4 x = [x, x, x, x]" for x :: nat
    by (simp add: numeral_eq_Suc)
  have sl:
    "sleeps (snd (run_periodically 86400 [?k, refused, throttled, invalid_key] fresh)) =
       [86400, 86400, 86400, 86400]"
    by (simp only: sn z n4 r4 append_Nil)
  have ok: "stdout (snd (fetch ?k fresh)) =
              [''[2025-02-09 22:55:00] Error: API Key not found! Check your .env file.'']"
    and ck: "curr_time ?k (snd (fetch ?k fresh)) = ''2025-02-09 22:55:01''"
    and orf: "stdout (snd (fetch refused fresh)) =
              [''[2025-02-09 22:55:00] Collecting news...'',
               ''[2025-02-09 22:55:01] API request failed: connection error'']"
    and crf: "curr_time refused (snd (fetch refused fresh)) = ''2025-02-09 22:55:02''"
    and ot: "stdout (snd (fetch throttled fresh)) =
              [''[2025-02-09 22:55:00] Collecting news...'',
               ''[2025-02-09 22:55:01] API request failed: HTTP error'']"
    and ct: "curr_time throttled (snd (fetch throttled fresh)) = ''2025-02-09 22:55:02''"
    and oi: "stdout (snd (fetch invalid_key fresh)) =
              [''[2025-02-09 22:55:00] Collecting news...'',
               ''[2025-02-09 22:55:01] API request failed: Invalid access key'']"
    and ci: "curr_time invalid_key (snd (fetch invalid_key fresh)) = ''2025-02-09 22:55:02''"
    by (simp_all add: fetch_eval)
  have sj: "str_json invalid_key (JDict [(''code'', JStr ''invalid_access_key''),
                                         (''message'', JStr ''Invalid access key'')]) = ''<json>''"
    by (simp add: invalid_key_def calm_def)
  have o1: "stdout (snd (run_periodically 86400 [?k] fresh)) =
       [''[2025-02-09 22:55:00] Error: API Key not found! Check your .env file.'',
        ''[2025-02-09 22:55:01] Error: '' @ [CHR 0x22] @ ''Missing API Key'' @ [CHR 0x22] @
          ''. Repeating in 86400 seconds'']"
    using K1 [THEN conjunct2, THEN conjunct2, THEN conjunct1] by (simp add: ok ck str_nat_86400)
  have o2: "stdout (snd (run_periodically 86400 [refused] fresh)) =
       [''[2025-02-09 22:55:00] Collecting news...'',
        ''[2025-02-09 22:55:01] API request failed: connection error'',
        ''[2025-02-09 22:55:02] Error: '' @ [CHR 0x22] @ ''Connection refused'' @ [CHR 0x22] @
          ''. Repeating in 86400 seconds'']"
    using R [THEN conjunct2, THEN conjunct2, THEN conjunct1] by (simp add: orf crf str_nat_86400)
  have o3: "stdout (snd (run_periodically 86400 [throttled] fresh)) =
       [''[2025-02-09 22:55:00] Collecting news...'',
        ''[2025-02-09 22:55:01] API request failed: HTTP error'',
        ''[2025-02-09 22:55:02] Error: '' @ [CHR 0x22] @ ''Error 429: Too Many Requests'' @
          [CHR 0x22] @ ''. Repeating in 86400 seconds'']"
    using T [THEN conjunct2, THEN conjunct2, THEN conjunct1] by (simp add: ot ct str_nat_86400)
  have o4: "stdout (snd (run_periodically 86400 [invalid_key] fresh)) =
       [''[2025-02-09 22:55:00] Collecting news...'',
        ''[2025-02-09 22:55:01] API request failed: Invalid access key'',
        ''[2025-02-09 22:55:02] Error: '' @ [CHR 0x22] @ ''<json>'' @ [CHR 0x22] @
          ''. Repeating in 86400 seconds'']"
    using I [THEN conjunct2, THEN conjunct2, THEN conjunct1] by (simp add: oi ci sj str_nat_86400)
  have a1: "sleeps (snd (run_periodically 86400 [calm] fresh)) = [86400]"
    using K [THEN conjunct2, THEN conjunct2, THEN conjunct2, THEN conjunct2, THEN conjunct2,
             THEN conjunct2, THEN conjunct1] by (simp only: z append_Nil)
  have a2: "sleeps (snd (run_periodically 86400 [?b] fresh)) = [86400]"
    using K1 [THEN conjunct2, THEN conjunct2, THEN conjunct2, THEN conjunct2, THEN conjunct2,
              THEN conjunct2, THEN conjunct1] by (simp only: z append_Nil)
  show ?thesis
    by (intro conjI) (rule e run sl o1 o2 o3 o4 a1 a2)+
qed

text \<open>
  Claim C5 as stated has every fatal error of the Fetcher caught and logged. Two of them are
  not a \<open>SystemExit\<close> when they leave \<open>fetch\<close>. With a \<open>requests\<close> that does
  not derive the decoding error from \<open>RequestException\<close>, the answer 502 with an HTML
  body ends the loop with that error; an \<open>error\<close> object without a \<open>message\<close>
  ends it with the \<open>KeyError\<close> of the print. In both runs the only line printed is the
  first one, and the pass that would have followed is not run.
\<close>

theorem scheduler_misses_fetcher_errors_counterexample:
  "fst (run_periodically 86400 [bad_gateway\<lparr>decode_error_is_request_exception := False\<rparr>, calm]
          fresh) =
     Inl (Exception (JSONDecodeError ''Expecting value: line 1 column 1 (char 0)''))
   \<and> stdout (snd (run_periodically 86400
                    [bad_gateway\<lparr>decode_error_is_request_exception := False\<rparr>, calm] fresh)) =
       [''[2025-02-09 22:55:00] Collecting news...'']
   \<and> length (requests (snd (run_periodically 86400
                    [bad_gateway\<lparr>decode_error_is_request_exception := False\<rparr>, calm] fresh))) = 1
   \<and> fst (run_periodically 86400 [no_message, calm] fresh) = Inl (Exception (KeyError ''message''))
   \<and> stdout (snd (run_periodically 86400 [no_message, calm] fresh)) =
       [''[2025-02-09 22:55:00] Collecting news...'']
   \<and> length (requests (snd (run_periodically 86400 [no_message, calm] fresh))) = 1"
proof -
  let ?w = "bad_gateway\<lparr>decode_error_is_request_exception := False\<rparr>"
  have a: "fst (iteration 86400 ?w fresh) =
             Inl (Exception (JSONDecodeError ''Expecting value: line 1 column 1 (char 0)''))"
    by (simp add: pass_eval)
  have b: "stdout (snd (iteration 86400 ?w fresh)) = [''[2025-02-09 22:55:00] Collecting news...'']"
    by (simp add: pass_eval)
  have c: "length (requests (snd (iteration 86400 ?w fresh))) = 1"
    by (simp add: pass_eval)
  have d: "fst (iteration 86400 no_message fresh) = Inl (Exception (KeyError ''message''))"
    by (simp add: pass_eval)
  have e: "stdout (snd (iteration 86400 no_message fresh)) =
             [''[2025-02-09 22:55:00] Collecting news...'']"
    by (simp add: pass_eval)
  have f: "length (requests (snd (iteration 86400 no_message fresh))) = 1"
    by (simp add: pass_eval)
  have r1: "run_periodically 86400 [?w, calm] fresh = iteration 86400 ?w fresh"
    using run_periodically_stop [OF a] .
  have r2: "run_periodically 86400 [no_message, calm] fresh = iteration 86400 no_message fresh"
    using run_periodically_stop [OF d] .
  show ?thesis
    unfolding r1 r2 by (intro conjI) (rule a b c d e f)+
qed



end
